theory Spec2Isabelle
  imports Complex_Main "HOL-Library.Word"
begin

section \<open>Background-removal scripts: masks and their post-processing\<close>

text \<open>
  The V1 script (\<^verbatim>\<open>rmbg_inference.py\<close>) post-processes the mask that the segmentation
  pipeline returns. The mask is an 8-bit single-channel image (PIL mode L); \<^verbatim>\<open>np.array(mask)\<close>
  is a two-dimensional \<^verbatim>\<open>uint8\<close> array, modelled as the list of its rows.
  Python floats are modelled as rationals (every finite double is one); NaN and the
  infinities, and the rounding of the product \<^verbatim>\<open>threshold * 255\<close>, are outside the model.
\<close>

type_synonym u8 = "8 word"
type_synonym gray = "u8 list list"

subsection \<open>Python exceptions\<close>

text \<open>
  \<^verbatim>\<open>SystemExit\<close> derives from \<^verbatim>\<open>BaseException\<close>, not from \<^verbatim>\<open>Exception\<close>: a handler
  \<^verbatim>\<open>except Exception\<close> lets it pass. \<^verbatim>\<open>UnboundLocalError\<close> is a subclass of
  \<^verbatim>\<open>NameError\<close>, \<^verbatim>\<open>FileNotFoundError\<close> of \<^verbatim>\<open>OSError\<close>. \<open>LibraryError\<close> stands for any
  other \<^verbatim>\<open>Exception\<close> that a third-party call raises, with its message.
\<close>

datatype pyexc =
    UnboundLocalError string
  | ValueError string
  | FileNotFoundError string
  | ImportError string
  | IndexError string
  | ZeroDivisionError
  | LibraryError string

datatype exn = Exc pyexc | SystemExit nat

fun is_NameError :: "pyexc \<Rightarrow> bool" where
  "is_NameError (UnboundLocalError _) = True"
| "is_NameError _ = False"

subsection \<open>apply_threshold\<close>

text \<open>
  \<^verbatim>\<open>
  def apply_threshold(mask, threshold=0.35):
      mask_array = np.array(mask)
      binary_mask = np.where(mask_array >= threshold * 255, 255, 0).astype(np.uint8)
      return Image.fromarray(binary_mask)
  \<close>
\<close>

definition threshold_pixel :: "rat \<Rightarrow> u8 \<Rightarrow> u8" where
  "threshold_pixel threshold p = (if of_nat (unat p) \<ge> threshold * 255 then 255 else 0)"

definition apply_threshold :: "gray \<Rightarrow> rat \<Rightarrow> gray" where
  "apply_threshold msk threshold = map (map (threshold_pixel threshold)) msk"

subsection \<open>The numeric library behind enhance_mask\<close>

text \<open>
  \<^verbatim>\<open>scipy.ndimage\<close> and the float arithmetic of numpy are third-party code. What is integer
  arithmetic is written out; what depends on the platform or on floating-point rounding is
  a field of \<open>np_lib\<close>:
  \<^item> \<open>oob_to_u8\<close>: the C cast to \<^verbatim>\<open>uint8\<close> of a double outside \<open>0..255\<close>, which
    \<^verbatim>\<open>ndimage.sobel\<close> performs when it stores into its \<^verbatim>\<open>uint8\<close> output array;
  \<^item> \<open>scale_f16\<close>: \<^verbatim>\<open>(sqrt(s) / sqrt(m) * 255).astype(np.uint8)\<close> for a divisor
    \<open>sqrt m \<noteq> 0\<close>, in numpy's half precision;
  \<^item> \<open>nonfinite_to_u8\<close>: the cast to \<^verbatim>\<open>uint8\<close> of NaN or infinity;
  \<^item> \<open>gaussian_filter\<close>: \<^verbatim>\<open>ndimage.gaussian_filter(array, sigma)\<close> on a \<^verbatim>\<open>uint8\<close> array.
\<close>

datatype quotient = Quot u8 u8 | NaN | Infinity

record np_lib =
  oob_to_u8 :: "int \<Rightarrow> u8"
  scale_f16 :: "u8 \<Rightarrow> u8 \<Rightarrow> u8"
  nonfinite_to_u8 :: "quotient \<Rightarrow> u8"
  gaussian_filter :: "gray \<Rightarrow> rat \<Rightarrow> gray"

definition store_u8 :: "np_lib \<Rightarrow> int \<Rightarrow> u8" where
  "store_u8 L v = (if 0 \<le> v \<and> v \<le> 255 then word_of_int v else oob_to_u8 L v)"

text \<open>
  \<^verbatim>\<open>correlate1d(line, [w0, w1, w2], mode='reflect')\<close> on one line: the line is extended by
  its first element on the left and its last on the right, and
  \<open>out[i] = w0 * in[i - 1] + w1 * in[i] + w2 * in[i + 1]\<close>, stored as \<^verbatim>\<open>uint8\<close>.
\<close>

definition reflect_pad :: "u8 list \<Rightarrow> u8 list" where
  "reflect_pad xs = (case xs of [] \<Rightarrow> [] | _ \<Rightarrow> hd xs # xs @ [last xs])"

definition correlate_line :: "np_lib \<Rightarrow> int \<times> int \<times> int \<Rightarrow> u8 list \<Rightarrow> u8 list" where
  "correlate_line L w xs =
     (case w of (w0, w1, w2) \<Rightarrow>
        map (\<lambda>i. store_u8 L (w0 * uint (reflect_pad xs ! i)
                            + w1 * uint (reflect_pad xs ! (i + 1))
                            + w2 * uint (reflect_pad xs ! (i + 2))))
            [0..<length xs])"

definition correlate1d :: "np_lib \<Rightarrow> gray \<Rightarrow> int \<times> int \<times> int \<Rightarrow> nat \<Rightarrow> gray" where
  "correlate1d L a w axis =
     (if axis = 0 then transpose (map (correlate_line L w) (transpose a))
      else map (correlate_line L w) a)"

text \<open>
  \<^verbatim>\<open>ndimage.sobel(input, axis)\<close>: the derivative \<open>[-1, 0, 1]\<close> along \<open>axis\<close>, then the
  smoothing \<open>[1, 2, 1]\<close> along the other axis, both written to an output array of the
  input's type (\<^verbatim>\<open>uint8\<close> here).
\<close>

definition sobel :: "np_lib \<Rightarrow> gray \<Rightarrow> nat \<Rightarrow> gray" where
  "sobel L a axis = correlate1d L (correlate1d L a (-1, 0, 1) axis) (1, 2, 1) (1 - axis)"

definition map2d :: "('a \<Rightarrow> 'b) \<Rightarrow> 'a list list \<Rightarrow> 'b list list" where
  "map2d f a = map (map f) a"

definition zip2d :: "('a \<Rightarrow> 'b \<Rightarrow> 'c) \<Rightarrow> 'a list list \<Rightarrow> 'b list list \<Rightarrow> 'c list list" where
  "zip2d f a b = map2 (map2 f) a b"

subsection \<open>enhance_mask\<close>

text \<open>
  Lines 145 to 147: \<^verbatim>\<open>sobel_x**2 + sobel_y**2\<close> is \<^verbatim>\<open>uint8\<close> arithmetic (it wraps);
  \<^verbatim>\<open>np.sqrt\<close> of it is a float array. The model keeps the radicand of every pixel.
\<close>

definition edge_radicands :: "np_lib \<Rightarrow> gray \<Rightarrow> gray" where
  "edge_radicands L mask_array =
     zip2d (\<lambda>x y. x * x + y * y) (sobel L mask_array 0) (sobel L mask_array 1)"

text \<open>
  \<^verbatim>\<open>edge_mask.max()\<close> raises \<^verbatim>\<open>ValueError\<close> on an array without elements. The square root
  is monotone, so the maximum of the float array is the root of the largest radicand.
\<close>

definition array_max :: "gray \<Rightarrow> pyexc + u8" where
  "array_max a = (case concat a of [] \<Rightarrow> Inl (ValueError ''zero-size array to reduction operation maximum which has no identity'')
                  | x # xs \<Rightarrow> Inr (fold max xs x))"

text \<open>
  numpy's float division does not raise: \<open>0 / 0\<close> is NaN and \<open>x / 0\<close> is infinite
  (with a \<^verbatim>\<open>RuntimeWarning\<close>).
\<close>

definition np_divide :: "u8 \<Rightarrow> u8 \<Rightarrow> quotient" where
  "np_divide s m = (if m = 0 then (if s = 0 then NaN else Infinity) else Quot s m)"

text \<open>Line 150, \<^verbatim>\<open>edge_mask / edge_mask.max()\<close>: the quotients and the divisor's radicand.\<close>

definition edge_normalized :: "np_lib \<Rightarrow> gray \<Rightarrow> pyexc + (quotient list list \<times> u8)" where
  "edge_normalized L mask_array =
     (let edge_mask = edge_radicands L mask_array in
      case array_max edge_mask of
        Inl e \<Rightarrow> Inl e
      | Inr m \<Rightarrow> Inr (map2d (\<lambda>s. np_divide s m) edge_mask, m))"

text \<open>Lines 150 and 151: \<^verbatim>\<open>(... * 255).astype(np.uint8)\<close>.\<close>

definition astype_u8 :: "np_lib \<Rightarrow> quotient \<Rightarrow> u8" where
  "astype_u8 L q = (case q of Quot s m \<Rightarrow> scale_f16 L s m | _ \<Rightarrow> nonfinite_to_u8 L q)"

definition rebinarize :: "gray \<Rightarrow> gray" where
  "rebinarize a = map2d (\<lambda>p. if p > 127 then 255 else 0) a"

text \<open>
  \<^verbatim>\<open>
  def enhance_mask(mask, edge_enhancement=True, color_aware=True):
      mask_array = np.array(mask)
      if edge_enhancement:
          from scipy import ndimage
          sobel_x = ndimage.sobel(mask_array, axis=0)
          sobel_y = ndimage.sobel(mask_array, axis=1)
          edge_mask = np.sqrt(sobel_x**2 + sobel_y**2)
          edge_mask = edge_mask / edge_mask.max() * 255
          edge_mask = edge_mask.astype(np.uint8)
          mask_array = np.maximum(mask_array, edge_mask)
      if color_aware:
          mask_array = ndimage.gaussian_filter(mask_array, sigma=0.5)
          mask_array = np.where(mask_array > 127, 255, 0).astype(np.uint8)
      return Image.fromarray(mask_array)
  \<close>
  The import inside the first branch makes \<open>ndimage\<close> a local variable of the function,
  bound only when that branch runs; \<open>edge_branch\<close> returns the array and whether the
  name is bound. Reading an unbound local raises \<^verbatim>\<open>UnboundLocalError\<close>.
\<close>

definition edge_branch :: "np_lib \<Rightarrow> gray \<Rightarrow> bool \<Rightarrow> pyexc + (gray \<times> bool)" where
  "edge_branch L mask_array edge_enhancement =
     (if edge_enhancement then
        (case edge_normalized L mask_array of
           Inl e \<Rightarrow> Inl e
         | Inr (q, m) \<Rightarrow> Inr (zip2d max mask_array (map2d (astype_u8 L) q), True))
      else Inr (mask_array, False))"

definition enhance_mask :: "np_lib \<Rightarrow> gray \<Rightarrow> bool \<Rightarrow> bool \<Rightarrow> pyexc + gray" where
  "enhance_mask L msk edge_enhancement color_aware =
     (case edge_branch L msk edge_enhancement of
        Inl e \<Rightarrow> Inl e
      | Inr (mask_array, ndimage_bound) \<Rightarrow>
          if color_aware then
            (if \<not> ndimage_bound
             then Inl (UnboundLocalError ''ndimage'')
             else Inr (rebinarize (gaussian_filter L mask_array (1 / 2))))
          else Inr mask_array)"


section \<open>Effects: printed lines, network, files, exceptions\<close>

text \<open>
  A computation returns its result (a value, or the exception it raised) together with
  the events it performed, in order. \<open>Print\<close> carries the text of the format string of
  the \<^verbatim>\<open>print\<close> call (placeholders unexpanded).
\<close>

datatype pmode = ModeRGB | ModeRGBA | ModeL | ModeOther string

record image =
  img_mode :: pmode
  img_size :: "nat \<times> nat"
  img_data :: "nat list"

datatype picture = Gray gray | Img image

datatype event =
    Print string
  | Traceback
  | HttpGet string
  | DecodeBytes "nat list"
  | OpenFile string
  | LoadModel string
  | RunModel
  | MakeDirs string
  | WriteFile string "string option" picture
  | RemoveFile string

type_synonym 'a py = "(exn + 'a) \<times> event list"

definition ret :: "'a \<Rightarrow> 'a py" where
  "ret v = (Inr v, [])"

definition raise :: "pyexc \<Rightarrow> 'a py" where
  "raise e = (Inl (Exc e), [])"

definition sys_exit :: "nat \<Rightarrow> 'a py" where
  "sys_exit n = (Inl (SystemExit n), [])"

definition emit :: "event \<Rightarrow> unit py" where
  "emit ev = (Inr (), [ev])"

definition print :: "string \<Rightarrow> unit py" where
  "print s = emit (Print s)"

definition bind :: "'a py \<Rightarrow> ('a \<Rightarrow> 'b py) \<Rightarrow> 'b py" where
  "bind m f = (case m of
                 (Inl e, evs) \<Rightarrow> (Inl e, evs)
               | (Inr v, evs) \<Rightarrow> (case f v of (r, evs') \<Rightarrow> (r, evs @ evs')))"

definition seq :: "unit py \<Rightarrow> 'b py \<Rightarrow> 'b py" where
  "seq m k = bind m (\<lambda>_. k)"

text \<open>\<^verbatim>\<open>try: m  except Exception as e: h e\<close>; \<^verbatim>\<open>SystemExit\<close> is not caught.\<close>

definition try_except :: "'a py \<Rightarrow> (pyexc \<Rightarrow> 'a py) \<Rightarrow> 'a py" where
  "try_except m h = (case m of
                       (Inl (Exc e), evs) \<Rightarrow> (case h e of (r, evs') \<Rightarrow> (r, evs @ evs'))
                     | other \<Rightarrow> other)"

text \<open>A call into a library or the operating system: it returns or raises.\<close>

definition lift :: "pyexc + 'a \<Rightarrow> 'a py" where
  "lift r = (case r of Inl e \<Rightarrow> raise e | Inr v \<Rightarrow> ret v)"

definition attempt :: "pyexc option \<Rightarrow> unit py" where
  "attempt r = (case r of Some e \<Rightarrow> raise e | None \<Rightarrow> ret ())"

text \<open>
  The exit status of the interpreter: 0 after a normal return, the argument of
  \<^verbatim>\<open>sys.exit\<close>, and 1 (with a traceback) after an exception nobody caught.
\<close>

fun exit_status :: "'a py \<Rightarrow> nat" where
  "exit_status (Inr _, _) = 0"
| "exit_status (Inl (SystemExit n), _) = n"
| "exit_status (Inl (Exc _), _) = 1"

text \<open>
  A script run by the interpreter: an exception that nobody caught is reported with a
  traceback on the error stream.
\<close>

definition run_script :: "'a py \<Rightarrow> nat \<times> event list" where
  "run_script m = (exit_status m,
                   (case fst m of Inl (Exc _) \<Rightarrow> snd m @ [Traceback] | _ \<Rightarrow> snd m))"

fun is_error_print :: "event \<Rightarrow> bool" where
  "is_error_print (Print s) = (take 5 s = ''Error'')"
| "is_error_print _ = False"


definition startswith :: "string \<Rightarrow> string list \<Rightarrow> bool" where
  "startswith s prefixes = (\<exists>p \<in> set prefixes. take (length p) s = p)"

definition is_url :: "string \<Rightarrow> bool" where
  "is_url s = startswith s [''http://'', ''https://'']"


section \<open>The environment of the scripts\<close>

text \<open>
  Everything the scripts ask of the operating system, the network and the third-party
  libraries is answered by a \<open>world\<close>: a call returns a value or raises an exception
  (\<open>Inl\<close>, or \<open>Some\<close> for a call without a result). The answers do not change during
  a run. The objects that only travel between library calls (state dictionaries, models,
  pipelines, sessions, tensors) are plain datatypes.
\<close>

datatype loaded = OrderedDict "string list" | Dict "string list" | OtherObject

datatype model = ConfiguredModel loaded | DirectObject loaded | HubModel loaded

datatype pipe = SegmentationPipeline model | ModelItself model | HubPipeline

datatype tensor = Tensor "nat list" "nat list"

record response =
  status_error :: "pyexc option"
  content :: "nat list"

record world =
  script_dir :: string
  path_exists :: "string \<Rightarrow> bool"
  path_isfile :: "string \<Rightarrow> bool"
  os_makedirs :: "string \<Rightarrow> pyexc option"
  os_remove :: "string \<Rightarrow> pyexc option"
  os_getsize :: "string \<Rightarrow> pyexc + nat"
  requests_get :: "string \<Rightarrow> pyexc + response"
  image_open :: "string \<Rightarrow> pyexc + image"
  image_decode :: "nat list \<Rightarrow> pyexc + image"
  convert_error :: "image \<Rightarrow> pmode \<Rightarrow> pyexc option"
  convert_data :: "image \<Rightarrow> pmode \<Rightarrow> nat list"
  resize_error :: "image \<Rightarrow> nat \<times> nat \<Rightarrow> pyexc option"
  resize_data :: "image \<Rightarrow> nat \<times> nat \<Rightarrow> nat list"
  paste_error :: "image \<Rightarrow> image \<Rightarrow> image \<Rightarrow> pyexc option"
  paste_data :: "image \<Rightarrow> image \<Rightarrow> image \<Rightarrow> nat list"
  putalpha_error :: "image \<Rightarrow> image \<Rightarrow> pyexc option"
  putalpha_data :: "image \<Rightarrow> image \<Rightarrow> nat list"
  new_data :: "pmode \<Rightarrow> nat \<times> nat \<Rightarrow> nat list \<Rightarrow> nat list"
  split_error :: "image \<Rightarrow> pyexc option"
  band_data :: "image \<Rightarrow> nat \<Rightarrow> nat list"
  save_error :: "string \<Rightarrow> string option \<Rightarrow> picture \<Rightarrow> pyexc option"
  torch_load :: "string \<Rightarrow> pyexc + loaded"
  autoconfig_from_pretrained :: "pyexc option"
  model_from_state_dict :: "loaded \<Rightarrow> pyexc option"
  model_from_hub :: "pyexc option"
  load_state_dict :: "loaded \<Rightarrow> pyexc option"
  cuda_is_available :: bool
  model_to :: "model \<Rightarrow> string \<Rightarrow> pyexc option"
  feature_extractor_from_pretrained :: "pyexc option"
  make_pipeline :: "model \<Rightarrow> pyexc option"
  has_callable_pipe :: "model \<Rightarrow> bool"
  hf_pipeline :: "pyexc option"
  call_pipe :: "pipe \<Rightarrow> image \<Rightarrow> pyexc + gray"
  inference_session :: "string \<Rightarrow> pyexc + nat"
  array_of_image :: "image \<Rightarrow> nat list"
  ort_run :: "nat \<Rightarrow> tensor \<Rightarrow> pyexc + tensor list"
  scaled_uint8 :: "tensor \<Rightarrow> nat list"
  fromarray_other :: "tensor \<Rightarrow> pyexc + image"
  import_module :: "string \<Rightarrow> pyexc option"
  call_attribute :: "string \<Rightarrow> string \<Rightarrow> string \<Rightarrow> string \<Rightarrow> pyexc option"
  elapsed :: "string \<Rightarrow> rat"

subsection \<open>PIL operations\<close>

text \<open>
  Of an image the model keeps the mode and the size; the pixel data are whatever the
  library computes (a field of the world). \<^verbatim>\<open>Image.open\<close> is lazy: a damaged file may
  raise only when \<^verbatim>\<open>convert\<close> decodes it. \<^verbatim>\<open>convert\<close>, \<^verbatim>\<open>resize\<close> and \<^verbatim>\<open>Image.new\<close>
  return an image of the mode and size asked for; \<^verbatim>\<open>paste\<close> with a mask raises
  \<^verbatim>\<open>ValueError\<close> when the mask's size is not the size of the pasted image.
\<close>

definition image_convert :: "world \<Rightarrow> image \<Rightarrow> pmode \<Rightarrow> image py" where
  "image_convert W img m =
     seq (attempt (convert_error W img m))
         (ret \<lparr>img_mode = m, img_size = img_size img, img_data = convert_data W img m\<rparr>)"

definition image_resize :: "world \<Rightarrow> image \<Rightarrow> nat \<times> nat \<Rightarrow> image py" where
  "image_resize W img sz =
     seq (attempt (resize_error W img sz))
         (ret \<lparr>img_mode = img_mode img, img_size = sz, img_data = resize_data W img sz\<rparr>)"

definition image_new :: "world \<Rightarrow> pmode \<Rightarrow> nat \<times> nat \<Rightarrow> nat list \<Rightarrow> image" where
  "image_new W m sz colour = \<lparr>img_mode = m, img_size = sz, img_data = new_data W m sz colour\<rparr>"

definition image_paste :: "world \<Rightarrow> image \<Rightarrow> image \<Rightarrow> image \<Rightarrow> image py" where
  "image_paste W dst src msk =
     (if img_size msk \<noteq> img_size src then raise (ValueError ''images do not match'')
      else seq (attempt (paste_error W dst src msk))
               (ret (dst\<lparr>img_data := paste_data W dst src msk\<rparr>)))"

text \<open>\<^verbatim>\<open>img.split()[n]\<close>: band \<open>n\<close> of the image, a mode L image of the same size.\<close>

definition image_band :: "world \<Rightarrow> image \<Rightarrow> nat \<Rightarrow> image py" where
  "image_band W img n =
     seq (attempt (split_error W img))
         (ret \<lparr>img_mode = ModeL, img_size = img_size img, img_data = band_data W img n\<rparr>)"

definition image_putalpha :: "world \<Rightarrow> image \<Rightarrow> image \<Rightarrow> image py" where
  "image_putalpha W img alpha =
     seq (attempt (putalpha_error W img alpha))
         (ret (img\<lparr>img_data := putalpha_data W img alpha\<rparr>))"

definition image_save :: "world \<Rightarrow> picture \<Rightarrow> string \<Rightarrow> string option \<Rightarrow> unit py" where
  "image_save W pic path fmt =
     seq (attempt (save_error W path fmt pic)) (emit (WriteFile path fmt pic))"

section \<open>rmbg_inference.py: the V1 script\<close>

definition MODEL_NAME :: string where
  "MODEL_NAME = ''briaai/RMBG-1.4''"

definition MODEL_PATH :: "world \<Rightarrow> string" where
  "MODEL_PATH W = script_dir W @ ''/models/model.pth''"

definition check_model_exists :: "world \<Rightarrow> bool py" where
  "check_model_exists W =
     (if \<not> path_exists W (MODEL_PATH W) then
        seq (print ''Error: Model file not found at {MODEL_PATH}'')
       (seq (print ''Please make sure the RMBG-V1 model file is in the correct location.'')
            (sys_exit 1))
      else
        seq (print ''Found local model at {MODEL_PATH}'') (ret True))"

text \<open>
  \<open>load_model\<close>, lines 38 to 81. The three branches follow the type of what
  \<^verbatim>\<open>torch.load\<close> returned: an \<^verbatim>\<open>OrderedDict\<close>; something that is no \<^verbatim>\<open>dict\<close>, or a
  \<^verbatim>\<open>dict\<close> none of whose keys starts with \<^verbatim>\<open>encoder\<close>, \<^verbatim>\<open>decoder\<close>, \<^verbatim>\<open>model\<close> or
  \<^verbatim>\<open>backbone\<close>; any other \<^verbatim>\<open>dict\<close>.
\<close>

definition standard_keys :: "string list \<Rightarrow> bool" where
  "standard_keys keys =
     (\<exists>key \<in> set keys. startswith key [''encoder'', ''decoder'', ''model'', ''backbone''])"

fun build_model :: "world \<Rightarrow> loaded \<Rightarrow> model py" where
  "build_model W (OrderedDict keys) =
     seq (print ''Detected OrderedDict model format - creating model and loading state dict'')
    (seq (attempt (autoconfig_from_pretrained W))
    (seq (attempt (model_from_state_dict W (OrderedDict keys)))
         (ret (ConfiguredModel (OrderedDict keys)))))"
| "build_model W (Dict keys) =
     (if \<not> standard_keys keys then
        seq (print ''Detected non-standard model format - using model directly'')
            (ret (DirectObject (Dict keys)))
      else
        seq (print ''Loading standard state dict into model'')
       (seq (attempt (model_from_hub W))
       (seq (attempt (load_state_dict W (Dict keys)))
            (ret (HubModel (Dict keys))))))"
| "build_model W OtherObject =
     seq (print ''Detected non-standard model format - using model directly'')
         (ret (DirectObject OtherObject))"

definition load_model :: "world \<Rightarrow> model py" where
  "load_model W =
     try_except
       (bind (check_model_exists W) (\<lambda>_.
        seq (emit (LoadModel (MODEL_PATH W)))
       (bind (lift (torch_load W (MODEL_PATH W))) (\<lambda>state_dict.
        bind (build_model W state_dict) (\<lambda>model.
        seq (attempt (model_to W model (if cuda_is_available W then ''cuda:0'' else ''cpu'')))
       (seq (print ''RMBG-V1 model loaded successfully from local file on {device}'')
            (ret model)))))))
       (\<lambda>e. seq (print ''Error loading RMBG-V1 model: {e}'')
            (seq (emit Traceback)
                 (sys_exit 1)))"

text \<open>
  \<open>create_pipeline\<close>, lines 83 to 120. The inner handler tries the fallbacks and, when
  the last one fails too, raises the first error again, which the outer handler turns
  into \<^verbatim>\<open>sys.exit(1)\<close>.
\<close>

definition create_pipeline :: "world \<Rightarrow> pipe py" where
  "create_pipeline W =
     try_except
       (bind (check_model_exists W) (\<lambda>_.
        bind (load_model W) (\<lambda>model.
        try_except
          (seq (attempt (feature_extractor_from_pretrained W))
          (seq (attempt (make_pipeline W model))
               (ret (SegmentationPipeline model))))
          (\<lambda>e. seq (print ''Standard pipeline creation failed, trying alternative approach: {e}'')
                 (if has_callable_pipe W model then
                    seq (print ''Using model's built-in pipeline function'')
                        (ret (ModelItself model))
                  else
                    try_except
                      (seq (print ''Attempting to create pipeline directly from HuggingFace'')
                      (seq (attempt (hf_pipeline W))
                           (ret HubPipeline)))
                      (\<lambda>e2. seq (print ''Failed to create pipeline with fallback method: {e2}'')
                                 (raise e)))))))
       (\<lambda>e. seq (print ''Error creating pipeline: {e}'') (sys_exit 1))"

text \<open>
  \<^verbatim>\<open>
  def preprocess_image(image_path):
      if image_path.startswith(('http://', 'https://')):
          response = requests.get(image_path)
          img = Image.open(BytesIO(response.content)).convert('RGB')
      else:
          img = Image.open(image_path).convert('RGB')
      return img
  \<close>
\<close>

definition preprocess_image :: "world \<Rightarrow> string \<Rightarrow> image py" where
  "preprocess_image W image_path =
     (if is_url image_path then
        seq (emit (HttpGet image_path))
       (bind (lift (requests_get W image_path)) (\<lambda>response.
        seq (emit (DecodeBytes (content response)))
       (bind (lift (image_decode W (content response))) (\<lambda>img.
        image_convert W img ModeRGB))))
      else
        seq (emit (OpenFile image_path))
       (bind (lift (image_open W image_path)) (\<lambda>img.
        image_convert W img ModeRGB)))"

text \<open>
  \<open>inference\<close>, lines 166 to 211; \<open>inference_body\<close> is its \<^verbatim>\<open>try\<close> block and
  \<open>threshold_and_enhance\<close> lines 195 to 197 of it. The two readings of the clock take no part.
\<close>

definition threshold_and_enhance :: "np_lib \<Rightarrow> gray \<Rightarrow> rat \<Rightarrow> bool \<Rightarrow> bool \<Rightarrow> pyexc + gray" where
  "threshold_and_enhance N msk threshold edge_enhancement color_aware =
     (let msk = apply_threshold msk threshold in
      if edge_enhancement \<or> color_aware
      then enhance_mask N msk edge_enhancement color_aware
      else Inr msk)"

definition inference_body ::
  "world \<Rightarrow> np_lib \<Rightarrow> string \<Rightarrow> string \<Rightarrow> rat \<Rightarrow> bool \<Rightarrow> bool \<Rightarrow> gray py" where
  "inference_body W N image_path output_path threshold edge_enhancement color_aware =
     bind (create_pipeline W) (\<lambda>pipe.
     bind (preprocess_image W image_path) (\<lambda>image.
     seq (print ''Running RMBG-V1 inference on {image_path}...'')
    (seq (emit RunModel)
    (bind (lift (call_pipe W pipe image)) (\<lambda>msk.
     bind (lift (threshold_and_enhance N msk threshold edge_enhancement color_aware)) (\<lambda>msk.
     seq (image_save W (Gray msk) output_path None)
    (seq (print ''Mask saved to {output_path}'')
    (seq (print ''Inference completed in {elapsed:.2f} seconds'')
         (ret msk)))))))))"

definition inference ::
  "world \<Rightarrow> np_lib \<Rightarrow> string \<Rightarrow> string \<Rightarrow> rat \<Rightarrow> bool \<Rightarrow> bool \<Rightarrow> gray py" where
  "inference W N image_path output_path threshold edge_enhancement color_aware =
     try_except
       (inference_body W N image_path output_path threshold edge_enhancement color_aware)
       (\<lambda>e. seq (print ''Error during inference: {e}'') (sys_exit 1))"

text \<open>
  \<open>main\<close>, lines 213 to 232, after \<^verbatim>\<open>argparse\<close> has parsed the command line (a command
  line it rejects ends the process with status 2 before anything is processed). The
  threshold is an optional positional argument with default 0.35; the two flags are
  strings compared with \<^verbatim>\<open>'true'\<close> after \<^verbatim>\<open>lower()\<close>.
\<close>

record v1_args =
  arg_input_image :: string
  arg_output_path :: string
  arg_threshold :: "rat option"
  arg_edge_enhancement :: "string option"
  arg_color_aware :: "string option"

definition lower_char :: "char \<Rightarrow> char" where
  "lower_char c = (let n = (of_char c :: nat) in if 65 \<le> n \<and> n \<le> 90 then char_of (n + 32) else c)"

definition lower :: "string \<Rightarrow> string" where
  "lower s = map lower_char s"

definition flag_value :: "string option \<Rightarrow> bool" where
  "flag_value a = (lower (case a of None \<Rightarrow> ''true'' | Some s \<Rightarrow> s) = ''true'')"

definition threshold_value :: "rat option \<Rightarrow> rat" where
  "threshold_value a = (case a of None \<Rightarrow> 35 / 100 | Some t \<Rightarrow> t)"

definition v1_main :: "world \<Rightarrow> np_lib \<Rightarrow> v1_args \<Rightarrow> unit py" where
  "v1_main W N args =
     bind (inference W N (arg_input_image args) (arg_output_path args)
             (threshold_value (arg_threshold args))
             (flag_value (arg_edge_enhancement args))
             (flag_value (arg_color_aware args)))
          (\<lambda>_. ret ())"


section \<open>Paths (posixpath)\<close>

text \<open>
  \<^verbatim>\<open>str.rfind\<close> gives the index of the last occurrence, or \<open>-1\<close>.
  \<^verbatim>\<open>os.path.dirname\<close> is the path up to and with the last slash, with trailing slashes
  removed unless nothing else is left. \<^verbatim>\<open>os.path.splitext\<close> splits at the last dot
  of the last component, unless only dots precede it there.
\<close>

definition rfind :: "string \<Rightarrow> char \<Rightarrow> int" where
  "rfind s c = int (length s) - 1 - int (length (takeWhile (\<lambda>x. x \<noteq> c) (rev s)))"

definition rstrip :: "string \<Rightarrow> char \<Rightarrow> string" where
  "rstrip s c = rev (dropWhile (\<lambda>x. x = c) (rev s))"

definition dirname :: "string \<Rightarrow> string" where
  "dirname p =
     (let head = take (nat (rfind p CHR ''/'' + 1)) p in
      if head \<noteq> [] \<and> head \<noteq> replicate (length head) CHR ''/''
      then rstrip head CHR ''/'' else head)"

definition splitext :: "string \<Rightarrow> string \<times> string" where
  "splitext p =
     (let sepIndex = rfind p CHR ''/''; dotIndex = rfind p CHR ''.'' in
      if dotIndex > sepIndex \<and>
         list_ex (\<lambda>c. c \<noteq> CHR ''.'') (take (nat (dotIndex - (sepIndex + 1))) (drop (nat (sepIndex + 1)) p))
      then (take (nat dotIndex) p, drop (nat dotIndex) p)
      else (p, []))"

section \<open>rmbg2_inference.py: the V2 script\<close>

definition INPUT_SIZE :: nat where
  "INPUT_SIZE = 1024"

definition MODEL_PATH_V2 :: "world \<Rightarrow> string" where
  "MODEL_PATH_V2 W = script_dir W @ ''/models/model_q4f16.onnx''"

record rmbg2 =
  model_path :: string
  ort_session :: nat

text \<open>
  \<open>RMBG2.__init__\<close>, lines 26 to 59: \<^verbatim>\<open>model_path or MODEL_PATH\<close> takes the default for
  \<^verbatim>\<open>None\<close> and for the empty string. Creating the session and reading its metadata is
  one call of the world.
\<close>

definition RMBG2_init :: "world \<Rightarrow> string option \<Rightarrow> rmbg2 py" where
  "RMBG2_init W mp =
     (let path = (case mp of None \<Rightarrow> MODEL_PATH_V2 W
                  | Some p \<Rightarrow> if p = [] then MODEL_PATH_V2 W else p) in
      seq (print ''Loading ONNX model from {self.model_path}'')
     (seq (print ''Available providers: {available_providers}'')
     (seq (print ''Using providers: {self.providers}'')
     (try_except
        (seq (emit (LoadModel path))
        (bind (lift (inference_session W path)) (\<lambda>session.
         seq (print ''Model loaded successfully. Input shape: {self.input_shape}'')
             (ret \<lparr>model_path = path, ort_session = session\<rparr>))))
        (\<lambda>e. seq (print ''Error initializing ONNX model: {e}'') (raise e))))))"

text \<open>\<open>RMBG2._preprocess\<close>, lines 77 to 92: the tensor has the layout (1, 3, 1024, 1024).\<close>

definition RMBG2_preprocess :: "world \<Rightarrow> image \<Rightarrow> tensor py" where
  "RMBG2_preprocess W img =
     bind (image_convert W img ModeRGB) (\<lambda>img_resized.
     bind (image_resize W img_resized (INPUT_SIZE, INPUT_SIZE)) (\<lambda>img_resized.
     ret (Tensor [1, 3, INPUT_SIZE, INPUT_SIZE] (array_of_image W img_resized))))"

text \<open>\<open>RMBG2._inference\<close>, lines 94 to 104; \<^verbatim>\<open>outputs[0]\<close> raises on an empty list.\<close>

definition RMBG2_inference :: "world \<Rightarrow> rmbg2 \<Rightarrow> tensor \<Rightarrow> tensor py" where
  "RMBG2_inference W self img_input =
     try_except
       (seq (emit RunModel)
       (bind (lift (ort_run W (ort_session self) img_input)) (\<lambda>outputs.
        case outputs of
          [] \<Rightarrow> raise (IndexError ''list index out of range'')
        | out # _ \<Rightarrow> ret out)))
       (\<lambda>e. seq (print ''Inference error: {e}'') (raise e))"

text \<open>
  \<open>RMBG2._postprocess\<close>, lines 106 to 115. \<^verbatim>\<open>squeeze\<close> drops the axes of length 1.
  \<^verbatim>\<open>Image.fromarray\<close> makes of a two-dimensional \<^verbatim>\<open>uint8\<close> array with \<open>h\<close> rows and
  \<open>w\<close> columns a mode L image of size \<open>(w, h)\<close>; what it does with any other array is
  left to the world. The mask is then resized to the size of the original image.
\<close>

fun squeeze :: "tensor \<Rightarrow> tensor" where
  "squeeze (Tensor shape d) = Tensor (filter (\<lambda>n. n \<noteq> 1) shape) d"

definition fromarray :: "world \<Rightarrow> tensor \<Rightarrow> image py" where
  "fromarray W t =
     (case t of
        Tensor [h, w] d \<Rightarrow>
          if 0 < h \<and> 0 < w
          then ret \<lparr>img_mode = ModeL, img_size = (w, h), img_data = scaled_uint8 W t\<rparr>
          else lift (fromarray_other W t)
      | _ \<Rightarrow> lift (fromarray_other W t))"

definition RMBG2_postprocess :: "world \<Rightarrow> tensor \<Rightarrow> nat \<times> nat \<Rightarrow> image py" where
  "RMBG2_postprocess W m original_size =
     bind (fromarray W (squeeze m)) (\<lambda>msk.
     image_resize W msk original_size)"

text \<open>\<open>RMBG2.predict\<close>, lines 61 to 75.\<close>

definition RMBG2_predict :: "world \<Rightarrow> rmbg2 \<Rightarrow> image \<Rightarrow> image py" where
  "RMBG2_predict W self img =
     bind (RMBG2_preprocess W img) (\<lambda>img_input.
     bind (RMBG2_inference W self img_input) (\<lambda>m.
     bind (RMBG2_postprocess W m (img_size img)) (\<lambda>msk.
     seq (print ''Inference time: {inference_time:.3f} seconds'')
         (ret msk))))"

text \<open>\<open>download_image\<close>, lines 117 to 128.\<close>

definition download_image :: "world \<Rightarrow> string \<Rightarrow> image py" where
  "download_image W url =
     try_except
       (if is_url url then
          seq (emit (HttpGet url))
         (bind (lift (requests_get W url)) (\<lambda>response.
          seq (attempt (status_error response))
         (seq (emit (DecodeBytes (content response)))
              (lift (image_decode W (content response))))))
        else
          seq (emit (OpenFile url)) (lift (image_open W url)))
       (\<lambda>e. seq (print ''Error downloading image: {e}'') (raise e))"

text \<open>
  \<open>process_image\<close>, lines 130 to 182, in the order of the source: \<open>load_input\<close> is
  lines 138 to 147, \<open>flatten_alpha\<close> lines 150 to 153, \<open>save_outputs\<close> lines 167 to
  177. The parameters \<^verbatim>\<open>alpha_matting\<close>, \<^verbatim>\<open>foreground_threshold\<close> and
  \<^verbatim>\<open>background_threshold\<close> are never read.
\<close>

datatype image_arg = PathArg string | ImageArg image

definition load_input :: "world \<Rightarrow> image_arg \<Rightarrow> image py" where
  "load_input W image_path =
     (case image_path of
        PathArg p \<Rightarrow>
          if is_url p then download_image W p
          else if \<not> path_isfile W p
               then raise (FileNotFoundError ''Image file not found: {image_path}'')
               else seq (emit (OpenFile p)) (lift (image_open W p))
      | ImageArg img \<Rightarrow> ret img)"

definition flatten_alpha :: "world \<Rightarrow> image \<Rightarrow> image py" where
  "flatten_alpha W img =
     (if img_mode img = ModeRGBA then
        bind (image_band W img 3) (\<lambda>alpha.
        image_paste W (image_new W ModeRGB (img_size img) [255, 255, 255]) img alpha)
      else ret img)"

definition mask_path_of :: "string \<Rightarrow> string" where
  "mask_path_of output_path = fst (splitext output_path) @ ''_mask.png''"

definition save_outputs :: "world \<Rightarrow> image \<Rightarrow> image \<Rightarrow> string option \<Rightarrow> unit py" where
  "save_outputs W output msk output_path =
     (case output_path of
        None \<Rightarrow> ret ()
      | Some p \<Rightarrow>
          if p = [] then ret ()
          else
            seq (if dirname p \<noteq> [] \<and> \<not> path_exists W (dirname p)
                 then seq (attempt (os_makedirs W (dirname p))) (emit (MakeDirs (dirname p)))
                 else ret ())
           (seq (image_save W (Img output) p (Some ''PNG''))
           (seq (print ''Saved output to {output_path}'')
           (seq (image_save W (Img msk) (mask_path_of p) (Some ''PNG''))
                (print ''Saved mask to {mask_path}'')))))"

definition process_image ::
  "world \<Rightarrow> image_arg \<Rightarrow> string option \<Rightarrow> string option \<Rightarrow> (image \<times> image) py" where
  "process_image W image_path output_path mp =
     try_except
       (bind (RMBG2_init W mp) (\<lambda>model.
        bind (load_input W image_path) (\<lambda>img.
        bind (flatten_alpha W img) (\<lambda>img.
        seq (print ''Processing image of size {orig_width}x{orig_height}'')
       (bind (RMBG2_predict W model img) (\<lambda>msk.
        bind (image_paste W (image_new W ModeRGBA (img_size img) [0, 0, 0, 0]) img msk) (\<lambda>output.
        seq (save_outputs W output msk output_path)
            (ret (output, msk)))))))))
       (\<lambda>e. seq (print ''Error processing image: {e}'') (raise e))"

text \<open>\<open>main\<close>, lines 184 to 199, after \<^verbatim>\<open>argparse\<close>.\<close>

record v2_args =
  arg_input :: string
  arg_output :: "string option"
  arg_model :: "string option"

definition default_output :: "v2_args \<Rightarrow> string" where
  "default_output args =
     (case arg_output args of
        None \<Rightarrow> fst (splitext (arg_input args)) @ ''_nobg.png''
      | Some p \<Rightarrow> if p = [] then fst (splitext (arg_input args)) @ ''_nobg.png'' else p)"

definition v2_main :: "world \<Rightarrow> v2_args \<Rightarrow> unit py" where
  "v2_main W args =
     try_except
       (bind (process_image W (PathArg (arg_input args)) (Some (default_output args)) (arg_model args))
             (\<lambda>_. print ''Background removal completed successfully''))
       (\<lambda>e. seq (print ''Error: {e}'') (sys_exit 1))"


section \<open>test_rmbg.py\<close>

text \<open>
  \<open>remove_background\<close>, lines 19 to 66, and the script: the banner printed when the
  module is loaded, then \<open>main\<close>, lines 68 to 94 (the default output path is taken only
  when \<^verbatim>\<open>--output\<close> is absent). The imports at the top of a script are taken to
  succeed, for this script as for the others; an import inside a function is a step of
  that function.
\<close>

definition remove_background ::
  "world \<Rightarrow> np_lib \<Rightarrow> string \<Rightarrow> string \<Rightarrow> rat \<Rightarrow> bool \<Rightarrow> bool \<Rightarrow> unit py" where
  "remove_background W N input_path output_path threshold edge_enhancement color_aware =
     try_except
       (bind (check_model_exists W) (\<lambda>_.
        seq (print ''Processing image: {input_path}'')
       (bind (inference W N input_path (mask_path_of output_path) threshold
                edge_enhancement color_aware) (\<lambda>_.
        seq (emit (OpenFile input_path))
       (bind (lift (image_open W input_path)) (\<lambda>original.
        bind (image_convert W original ModeRGBA) (\<lambda>original.
        seq (emit (OpenFile (mask_path_of output_path)))
       (bind (lift (image_open W (mask_path_of output_path))) (\<lambda>m.
        bind (image_convert W m ModeL) (\<lambda>m.
        bind (if img_size original \<noteq> img_size m
              then image_resize W m (img_size original) else ret m) (\<lambda>m.
        bind (image_putalpha W original m) (\<lambda>original.
        seq (image_save W (Img original) output_path None)
       (seq (print ''Background removed image saved to: {output_path}'')
       (seq (attempt (os_remove W (mask_path_of output_path)))
       (seq (emit (RemoveFile (mask_path_of output_path)))
            (print ''Background removal completed in {elapsed:.2f} seconds''))))))))))))))))
       (\<lambda>e. seq (print ''Error removing background: {e}'') (sys_exit 1))"

record test_args =
  targ_input :: "string option"
  targ_output :: "string option"
  targ_threshold :: "rat option"
  targ_edge_enhancement :: "string option"
  targ_color_aware :: "string option"

definition test_input :: "test_args \<Rightarrow> string" where
  "test_input args = (case targ_input args of None \<Rightarrow> ''test_photo.jpg'' | Some p \<Rightarrow> p)"

definition test_output :: "test_args \<Rightarrow> string" where
  "test_output args =
     (case targ_output args of
        None \<Rightarrow> fst (splitext (test_input args)) @ ''_nobg_rmbg.png''
      | Some p \<Rightarrow> p)"

definition test_rmbg_script :: "world \<Rightarrow> np_lib \<Rightarrow> test_args \<Rightarrow> unit py" where
  "test_rmbg_script W N args =
     seq (print (replicate 50 CHR ''=''))
    (seq (print ''RMBG-V1 Background Removal Test'')
    (seq (print ''Using local model file at: ./models/model.pth'')
    (seq (print (replicate 50 CHR ''=''))
         (remove_background W N (test_input args) (test_output args)
            (threshold_value (targ_threshold args))
            (flag_value (targ_edge_enhancement args))
            (flag_value (targ_color_aware args))))))"

section \<open>test_rmbg2.py\<close>

text \<open>
  The names that the module \<^verbatim>\<open>rmbg_inference\<close> binds at its top level: what it imports,
  its two constants and its eight functions. \<^verbatim>\<open>from m import name\<close> loads the module and
  raises \<^verbatim>\<open>ImportError\<close> when the module has no such attribute (\<^verbatim>\<open>rmbg_inference\<close> is a
  single file, not a package with submodules).
\<close>

definition rmbg_inference_names :: "string list" where
  "rmbg_inference_names =
     [''sys'', ''os'', ''np'', ''torch'', ''F'', ''Image'', ''BytesIO'', ''requests'', ''Path'',
      ''ssl'', ''time'', ''base64'', ''argparse'', ''AutoModelForImageSegmentation'',
      ''AutoFeatureExtractor'', ''pipeline'', ''collections'',
      ''MODEL_NAME'', ''MODEL_PATH'',
      ''check_model_exists'', ''load_model'', ''create_pipeline'', ''preprocess_image'',
      ''apply_threshold'', ''enhance_mask'', ''inference'', ''main'']"

definition import_from :: "world \<Rightarrow> string \<Rightarrow> string list \<Rightarrow> string \<Rightarrow> string py" where
  "import_from W modname names name =
     seq (attempt (import_module W modname))
         (if name \<in> set names then ret name
          else raise (ImportError ''cannot import name''))"

text \<open>
  Calling what was imported from \<^verbatim>\<open>rmbg_inference\<close> with two positional arguments:
  \<open>inference\<close> is the function above, with its defaults; any other attribute is left to
  the world.
\<close>

definition call_v1 :: "world \<Rightarrow> np_lib \<Rightarrow> string \<Rightarrow> string \<Rightarrow> string \<Rightarrow> unit py" where
  "call_v1 W N name a b =
     (if name = ''inference''
      then bind (inference W N a b (35 / 100) True True) (\<lambda>_. ret ())
      else attempt (call_attribute W ''rmbg_inference'' name a b))"

definition test_image :: "world \<Rightarrow> string" where
  "test_image W = script_dir W @ ''/test_photo.jpg''"

text \<open>
  \<open>compare_with_original\<close>, lines 58 to 112. The import on line 64 stands before the
  \<^verbatim>\<open>try\<close>. The elapsed times are readings of the world's clock; the percentage on line 90
  divides by the first of them.
\<close>

definition compare_files :: "world \<Rightarrow> string \<Rightarrow> string \<Rightarrow> bool py" where
  "compare_files W output_v1 output_v2 =
     (if path_exists W output_v1 \<and> path_exists W output_v2 then
        bind (lift (os_getsize W output_v1)) (\<lambda>size_v1.
        bind (lift (os_getsize W output_v2)) (\<lambda>size_v2.
        seq (print ''RMBG-1.4 output size: {size_v1 / 1024:.1f} KB'')
       (seq (print ''RMBG-2.0 output size: {size_v2 / 1024:.1f} KB'')
       (seq (emit (OpenFile output_v1))
       (bind (lift (image_open W output_v1)) (\<lambda>img_v1.
        seq (emit (OpenFile output_v2))
       (bind (lift (image_open W output_v2)) (\<lambda>img_v2.
        seq (print ''RMBG-1.4 image dimensions: {img_v1.size}'')
       (seq (print ''RMBG-2.0 image dimensions: {img_v2.size}'')
            (ret True))))))))))
      else
        seq (print ''Comparison failed - output files not created'') (ret False))"

definition compare_with_original :: "world \<Rightarrow> np_lib \<Rightarrow> bool py" where
  "compare_with_original W N =
     bind (import_from W ''rmbg_inference'' rmbg_inference_names ''process_image'') (\<lambda>process_image_v1.
     try_except
       (seq (print ''Testing RMBG-1.4...'')
       (seq (call_v1 W N process_image_v1 (test_image W) (script_dir W @ ''/test_photo_nobg_v1.png''))
       (seq (print ''RMBG-1.4 completed in {v1_time:.2f} seconds'')
       (seq (print ''Testing RMBG-2.0...'')
       (bind (process_image W (PathArg (test_image W))
                (Some (script_dir W @ ''/test_photo_nobg_v2.png'')) None) (\<lambda>_.
        seq (print ''RMBG-2.0 completed in {v2_time:.2f} seconds'')
       (seq (print (CHR 0x0A # ''Comparison Results:''))
       (seq (print ''RMBG-1.4: {v1_time:.2f} seconds'')
       (seq (print ''RMBG-2.0: {v2_time:.2f} seconds'')
       (seq (if elapsed W ''v1_time'' = 0 then raise ZeroDivisionError
             else print ''Difference: {(v1_time - v2_time):.2f} seconds ({(v1_time - v2_time) / v1_time * 100:.1f}%)'')
            (compare_files W (script_dir W @ ''/test_photo_nobg_v1.png'')
               (script_dir W @ ''/test_photo_nobg_v2.png''))))))))))))
       (\<lambda>e. seq (print ''Comparison failed with error: {e}'') (ret False)))"

text \<open>
  \<open>test_rmbg2_onnx\<close>, lines 17 to 56. When the test photo is missing, a red disc on blue
  is drawn and saved (outside the \<^verbatim>\<open>try\<close>): the mask \<open>d\<close> is 255 where the distance
  from (256, 256) is below 200.
\<close>

definition disc_mask :: "nat list" where
  "disc_mask =
     concat (map (\<lambda>y. map (\<lambda>x. if (int x - 256)\<^sup>2 + (int y - 256)\<^sup>2 < 40000 then 255 else 0)
                          [0..<512]) [0..<512])"

definition create_test_image :: "world \<Rightarrow> unit py" where
  "create_test_image W =
     (if \<not> path_exists W (test_image W) then
        seq (print ''Test image not found. Creating a simple test image...'')
       (let img = image_new W ModeRGB (512, 512) [0, 0, 255];
            d = \<lparr>img_mode = ModeL, img_size = (512, 512), img_data = disc_mask\<rparr>;
            red = image_new W ModeRGB (512, 512) [255, 0, 0] in
        bind (image_paste W img red d) (\<lambda>img.
        seq (image_save W (Img img) (test_image W) None)
            (print ''Created test image at {test_image}'')))
      else ret ())"

definition test_rmbg2_onnx :: "world \<Rightarrow> bool py" where
  "test_rmbg2_onnx W =
     seq (create_test_image W)
    (seq (print ''Testing RMBG-2.0 ONNX implementation...'')
    (try_except
       (seq (print ''Processing test image...'')
       (bind (process_image W (PathArg (test_image W))
                (Some (script_dir W @ ''/test_photo_nobg_rmbg2.png'')) None) (\<lambda>_.
        seq (print ''Test completed successfully!'')
       (seq (print ''Output image saved to {output_image}'')
       (seq (print ''Output mask saved to {output_image.replace('.png', '_mask.png')}'')
            (ret True))))))
       (\<lambda>e. seq (print ''Test failed with error: {e}'') (ret False))))"

text \<open>The script, lines 114 to 119.\<close>

definition test_rmbg2_script :: "world \<Rightarrow> np_lib \<Rightarrow> bool py" where
  "test_rmbg2_script W N =
     bind (test_rmbg2_onnx W) (\<lambda>_.
     seq (print (CHR 0x0A # ''Comparing with original RMBG-1.4 implementation...''))
         (compare_with_original W N))"


section \<open>Outcomes and event lists\<close>





definition no_exit :: "'a py \<Rightarrow> bool" where
  "no_exit m = (case fst m of Inl (SystemExit _) \<Rightarrow> False | _ \<Rightarrow> True)"

definition sysexit_ok :: "'a py \<Rightarrow> bool" where
  "sysexit_ok m = (case m of (Inl (SystemExit n), evs) \<Rightarrow> n = 1 \<and> list_ex is_error_print evs | _ \<Rightarrow> True)"

definition exits1 :: "'a py \<Rightarrow> bool" where
  "exits1 m = (case m of (Inl x, evs) \<Rightarrow> x = SystemExit 1 \<and> list_ex is_error_print evs | _ \<Rightarrow> True)"

section \<open>Example environments\<close>

text \<open>
  One numeric library among those the model admits: casts that keep the low byte, NaN
  cast to 0, and a Gaussian filter that is the identity.
\<close>

definition example_lib :: np_lib where
  "example_lib = \<lparr>oob_to_u8 = word_of_int,
                   scale_f16 = (\<lambda>s m. word_of_nat ((255 * unat s) div unat m)),
                   nonfinite_to_u8 = (\<lambda>_. 0),
                   gaussian_filter = (\<lambda>a sigma. a)\<rparr>"

text \<open>
  A world in which every call succeeds, with a photo of 3 by 2 pixels, a V1 pipeline that
  returns a 2 by 2 mask and a V2 model whose output has the layout (1, 1, 1024, 1024); a
  world in which the model files are missing and the models fail; a world without image
  files; and command lines.
\<close>

definition example_image :: image where
  "example_image = \<lparr>img_mode = ModeRGB, img_size = (3, 2), img_data = [1, 2, 3]\<rparr>"

definition ideal_world :: world where
  "ideal_world = \<lparr>
     script_dir = ''/app'',
     path_exists = (\<lambda>_. True),
     path_isfile = (\<lambda>_. True),
     os_makedirs = (\<lambda>_. None),
     os_remove = (\<lambda>_. None),
     os_getsize = (\<lambda>_. Inr 1000),
     requests_get = (\<lambda>_. Inr \<lparr>status_error = None, content = [7, 7]\<rparr>),
     image_open = (\<lambda>_. Inr example_image),
     image_decode = (\<lambda>_. Inr example_image),
     convert_error = (\<lambda>_ _. None),
     convert_data = (\<lambda>img _. img_data img),
     resize_error = (\<lambda>_ _. None),
     resize_data = (\<lambda>img _. img_data img),
     paste_error = (\<lambda>_ _ _. None),
     paste_data = (\<lambda>dst src msk. img_data src),
     putalpha_error = (\<lambda>_ _. None),
     putalpha_data = (\<lambda>img _. img_data img),
     new_data = (\<lambda>_ _ colour. colour),
     split_error = (\<lambda>_. None),
     band_data = (\<lambda>img _. img_data img),
     save_error = (\<lambda>_ _ _. None),
     torch_load = (\<lambda>_. Inr (OrderedDict [''encoder.weight''])),
     autoconfig_from_pretrained = None,
     model_from_state_dict = (\<lambda>_. None),
     model_from_hub = None,
     load_state_dict = (\<lambda>_. None),
     cuda_is_available = False,
     model_to = (\<lambda>_ _. None),
     feature_extractor_from_pretrained = None,
     make_pipeline = (\<lambda>_. None),
     has_callable_pipe = (\<lambda>_. False),
     hf_pipeline = None,
     call_pipe = (\<lambda>_ _. Inr [[100, 50], [89, 90]]),
     inference_session = (\<lambda>_. Inr 0),
     array_of_image = (\<lambda>img. img_data img),
     ort_run = (\<lambda>_ _. Inr [Tensor [1, 1, 1024, 1024] [0]]),
     scaled_uint8 = (\<lambda>_. [0]),
     fromarray_other = (\<lambda>_. Inl (LibraryError ''Cannot handle this data type'')),
     import_module = (\<lambda>_. None),
     call_attribute = (\<lambda>_ _ _ _. None),
     elapsed = (\<lambda>_. 1)\<rparr>"

definition broken_world :: world where
  "broken_world = ideal_world\<lparr>
     path_exists := (\<lambda>_. False),
     torch_load := (\<lambda>_. Inl (LibraryError ''invalid load key'')),
     call_pipe := (\<lambda>_ _. Inl (LibraryError ''out of memory'')),
     inference_session := (\<lambda>_. Inl (LibraryError ''NO_SUCHFILE'')),
     ort_run := (\<lambda>_ _. Inl (LibraryError ''invalid dimensions''))\<rparr>"


definition example_v1_args :: v1_args where
  "example_v1_args = \<lparr>arg_input_image = ''in.jpg'', arg_output_path = ''mask.png'',
     arg_threshold = None, arg_edge_enhancement = None, arg_color_aware = None\<rparr>"

definition flags_off_args :: v1_args where
  "flags_off_args = \<lparr>arg_input_image = ''in.jpg'', arg_output_path = ''mask.png'',
     arg_threshold = None, arg_edge_enhancement = Some ''false'', arg_color_aware = Some ''False''\<rparr>"

definition example_v2_args :: v2_args where
  "example_v2_args = \<lparr>arg_input = ''in.jpg'', arg_output = None, arg_model = None\<rparr>"

definition example_test_args :: test_args where
  "example_test_args = \<lparr>targ_input = None, targ_output = None, targ_threshold = None,
     targ_edge_enhancement = None, targ_color_aware = None\<rparr>"

section \<open>Properties of the mask post-processing\<close>

lemma threshold_pixel_idem:
  "0 < t \<Longrightarrow> t \<le> 1 \<Longrightarrow> threshold_pixel t (threshold_pixel t p) = threshold_pixel t p"
  by (simp add: threshold_pixel_def)



text \<open>
  Claim C10. For every mask and every threshold \<open>t\<close> with \<open>0 < t \<le> 1\<close>,
  \<open>apply_threshold\<close> is idempotent.
\<close>

theorem apply_threshold_idempotent:
  "0 < t \<Longrightarrow> t \<le> 1 \<Longrightarrow> apply_threshold (apply_threshold msk t) t = apply_threshold msk t"
  by (simp add: apply_threshold_def threshold_pixel_idem)

theorem apply_threshold_idempotent_witness:
  "apply_threshold (apply_threshold [[100, 50], [89, 90]] (35 / 100)) (35 / 100)
   = [[255, 0], [0, 255]]"
proof -
  have "(0::rat) < 35 / 100" and "(35 / 100 :: rat) \<le> 1" by simp_all
  then have "apply_threshold (apply_threshold [[100, 50], [89, 90]] (35 / 100)) (35 / 100)
             = apply_threshold [[100, 50], [89, 90]] (35 / 100)"
    by (rule apply_threshold_idempotent)
  then show ?thesis by (simp add: apply_threshold_def threshold_pixel_def)
qed

text \<open>
  Claim C8. With \<open>edge_enhancement\<close> false and \<open>color_aware\<close> true, \<open>enhance_mask\<close>
  raises a \<^verbatim>\<open>NameError\<close> (its subclass \<^verbatim>\<open>UnboundLocalError\<close>) for every mask, and has no
  handler for it: the name \<open>ndimage\<close> is bound only in the edge-enhancement branch.
  Without edge enhancement the colour-aware filtering is never reached: with
  \<open>color_aware\<close> false the mask is returned as it is.
\<close>

theorem enhance_mask_color_only:
  "enhance_mask N msk False True = Inl (UnboundLocalError ''ndimage'') \<and>
   is_NameError (UnboundLocalError ''ndimage'') \<and>
   enhance_mask N msk False False = Inr msk"
  by (simp add: enhance_mask_def edge_branch_def)

section \<open>The Sobel filter on a uniform mask\<close>

lemma reflect_pad_replicate: "0 < n \<Longrightarrow> reflect_pad (replicate n c) = replicate (n + 2) c"
  by (cases n) (simp_all add: reflect_pad_def replicate_append_same)

lemma reflect_pad_nth: "0 < n \<Longrightarrow> i < n + 2 \<Longrightarrow> reflect_pad (replicate n c) ! i = c"
  by (simp only: reflect_pad_replicate nth_replicate)

lemma correlate_line_derivative_const:
  "correlate_line N (-1, 0, 1) (replicate n c) = replicate n 0"
  by (cases "n = 0")
     (auto simp: correlate_line_def store_u8_def reflect_pad_nth intro!: nth_equalityI)

lemma correlate_line_smooth_zero:
  "correlate_line N (1, 2, 1) (replicate n 0) = replicate n 0"
  by (cases "n = 0")
     (auto simp: correlate_line_def store_u8_def reflect_pad_nth intro!: nth_equalityI)

lemma transpose_replicate:
  "0 < h \<Longrightarrow> transpose (replicate h (replicate w c)) = replicate w (replicate h c)"
  by (subst transpose_rectangle [where n = w]) (auto intro!: nth_equalityI)

lemma correlate1d_derivative_const:
  "0 < h \<Longrightarrow> 0 < w \<Longrightarrow>
   correlate1d N (replicate h (replicate w c)) (-1, 0, 1) axis = replicate h (replicate w 0)"
  by (simp add: correlate1d_def transpose_replicate correlate_line_derivative_const)

lemma correlate1d_smooth_zero:
  "0 < h \<Longrightarrow> 0 < w \<Longrightarrow>
   correlate1d N (replicate h (replicate w 0)) (1, 2, 1) axis = replicate h (replicate w 0)"
  by (simp add: correlate1d_def transpose_replicate correlate_line_smooth_zero)

lemma sobel_uniform:
  "0 < h \<Longrightarrow> 0 < w \<Longrightarrow> sobel N (replicate h (replicate w c)) axis = replicate h (replicate w 0)"
  by (simp add: sobel_def correlate1d_derivative_const correlate1d_smooth_zero)

lemma map2_replicate: "map2 f (replicate n x) (replicate n y) = replicate n (f x y)"
  by (induction n) simp_all

lemma edge_radicands_uniform:
  "0 < h \<Longrightarrow> 0 < w \<Longrightarrow> edge_radicands N (replicate h (replicate w c)) = replicate h (replicate w 0)"
  by (simp add: edge_radicands_def sobel_uniform zip2d_def map2_replicate)

lemma fold_max_zero: "fold max (replicate n (0::u8)) 0 = 0"
  by (induction n) simp_all

lemma concat_replicate_replicate: "concat (replicate h (replicate w c)) = replicate (h * w) c"
  by (induction h) (simp_all add: replicate_add)

lemma array_max_zero:
  assumes "0 < h" and "0 < w"
  shows "array_max (replicate h (replicate w 0)) = Inr 0"
proof -
  from assms obtain k where k: "h * w = Suc k" by (cases "h * w") auto
  show ?thesis
    by (simp add: array_max_def concat_replicate_replicate k fold_max_zero del: fold_replicate)
qed

text \<open>
  Claim C9. On every uniform mask (\<open>h\<close> rows of \<open>w\<close> pixels of one value \<open>c\<close>) the
  edge-enhancement branch divides by \<open>edge_mask.max()\<close>, which is 0: every quotient is
  \<open>0 / 0\<close>, the edge image is NaN everywhere, and its \<^verbatim>\<open>uint8\<close> values are whatever the
  platform's cast makes of NaN. Nothing guards the division.
\<close>

theorem edge_normalization_uniform:
  "0 < h \<and> 0 < w \<longrightarrow>
     edge_normalized N (replicate h (replicate w c)) = Inr (replicate h (replicate w NaN), 0) \<and>
     edge_branch N (replicate h (replicate w c)) True
       = Inr (replicate h (replicate w (max c (nonfinite_to_u8 N NaN))), True)"
  by (simp add: edge_branch_def edge_normalized_def edge_radicands_uniform array_max_zero
        map2d_def np_divide_def zip2d_def map2_replicate astype_u8_def)


theorem edge_normalization_uniform_witness:
  "edge_normalized example_lib [[255, 255], [255, 255]] = Inr ([[NaN, NaN], [NaN, NaN]], 0) \<and>
   edge_branch example_lib [[255, 255], [255, 255]] True = Inr ([[255, 255], [255, 255]], True)"
  using edge_normalization_uniform [of 2 2 example_lib 255]
  by (simp add: numeral_2_eq_2 example_lib_def)

section \<open>Successful runs\<close>

lemma bind_Inr_iff:
  "bind m f = (Inr v, evs) \<longleftrightarrow> (\<exists>x e1 e2. m = (Inr x, e1) \<and> f x = (Inr v, e2) \<and> evs = e1 @ e2)"
  by (auto simp: bind_def split: prod.splits sum.splits)

lemma seq_Inr_iff:
  "seq m k = (Inr v, evs) \<longleftrightarrow> (\<exists>e1 e2. m = (Inr (), e1) \<and> k = (Inr v, e2) \<and> evs = e1 @ e2)"
  by (auto simp: seq_def bind_Inr_iff)

lemma try_reraise_Inr_iff:
  "try_except m (\<lambda>e. seq (print s) (raise e)) = (Inr v, evs) \<longleftrightarrow> m = (Inr v, evs)"
  by (auto simp: try_except_def seq_def bind_def print_def emit_def raise_def split: prod.splits sum.splits exn.splits)

lemma attempt_Inr_iff: "attempt r = (Inr u, evs) \<longleftrightarrow> r = None \<and> evs = []"
  by (auto simp: attempt_def raise_def ret_def split: option.splits)

lemma lift_Inr_iff: "lift r = (Inr v, evs) \<longleftrightarrow> r = Inr v \<and> evs = []"
  by (auto simp: lift_def raise_def ret_def split: sum.splits)

lemma ret_Inr_iff: "ret x = (Inr v, evs) \<longleftrightarrow> x = v \<and> evs = []"
  by (auto simp: ret_def)

lemma raise_not_Inr: "raise e \<noteq> (Inr v, evs)"
  by (simp add: raise_def)

lemma print_Inr_iff: "print s = (Inr u, evs) \<longleftrightarrow> evs = [Print s]"
  by (auto simp: print_def emit_def)

lemma emit_Inr_iff: "emit ev = (Inr u, evs) \<longleftrightarrow> evs = [ev]"
  by (auto simp: emit_def)

lemmas inv = bind_Inr_iff seq_Inr_iff try_reraise_Inr_iff attempt_Inr_iff lift_Inr_iff ret_Inr_iff
  raise_not_Inr print_Inr_iff emit_Inr_iff

lemma image_resize_size:
  "image_resize W img sz = (Inr r, evs) \<Longrightarrow> img_size r = sz \<and> img_mode r = img_mode img"
  by (auto simp: image_resize_def inv)

lemma image_paste_size:
  "image_paste W dst src msk = (Inr r, evs) \<Longrightarrow>
     img_size r = img_size dst \<and> img_mode r = img_mode dst \<and> img_size msk = img_size src"
  by (auto simp: image_paste_def inv split: if_splits)

lemma predict_size:
  "RMBG2_predict W self img = (Inr msk, evs) \<Longrightarrow> img_size msk = img_size img"
  by (auto simp: RMBG2_predict_def RMBG2_postprocess_def inv dest: image_resize_size)

lemma process_image_sizes:
  assumes "process_image W a out mp = (Inr (output, msk), evs)"
  shows "\<exists>img e0. load_input W a = (Inr img, e0) \<and> img_size output = img_size img \<and> img_size msk = img_size img
           \<and> img_mode output = ModeRGBA"
  using assms
  apply (simp add: process_image_def inv)
  apply (elim exE conjE)
  apply (auto simp: flatten_alpha_def image_new_def image_band_def inv split: if_splits dest!: image_paste_size predict_size)
  done

section \<open>Events that do not occur\<close>












section \<open>Paths\<close>






section \<open>Exit status of the V1 script\<close>

lemma exits1_sysexit_ok: "exits1 m \<Longrightarrow> sysexit_ok m"
  by (auto simp: exits1_def sysexit_ok_def split: prod.splits sum.splits exn.splits)

lemma ok_ret: "sysexit_ok (ret x)"
  by (simp add: sysexit_ok_def ret_def)
lemma ok_raise: "sysexit_ok (raise e)"
  by (simp add: sysexit_ok_def raise_def)
lemma ok_lift: "sysexit_ok (lift r)"
  by (simp add: sysexit_ok_def lift_def raise_def ret_def split: sum.splits)
lemma ok_attempt: "sysexit_ok (attempt r)"
  by (simp add: sysexit_ok_def attempt_def raise_def ret_def split: option.splits)
lemma ok_emit: "sysexit_ok (emit ev)"
  by (simp add: sysexit_ok_def emit_def)
lemma ok_print: "sysexit_ok (print s)"
  by (simp add: print_def ok_emit)

lemma ok_bind:
  assumes "sysexit_ok m" and "\<And>x. sysexit_ok (f x)"
  shows "sysexit_ok (bind m f)"
proof (cases m)
  case (Pair r evs)
  show ?thesis
  proof (cases r)
    case (Inl e)
    with Pair assms(1) show ?thesis by (simp add: sysexit_ok_def bind_def)
  next
    case (Inr v)
    obtain r' evs' where f: "f v = (r', evs')" by (cases "f v")
    from assms(2) [of v] f have "sysexit_ok (r', evs')" by simp
    with Pair Inr f show ?thesis
      by (auto simp: sysexit_ok_def bind_def split: sum.splits exn.splits)
  qed
qed

lemma ok_seq: "sysexit_ok m \<Longrightarrow> sysexit_ok k \<Longrightarrow> sysexit_ok (seq m k)"
  by (simp add: seq_def ok_bind)

lemma ok_try:
  assumes "sysexit_ok m" and "\<And>e. sysexit_ok (h e)"
  shows "sysexit_ok (try_except m h)"
proof (cases m)
  case (Pair r evs)
  show ?thesis
  proof (cases "\<exists>e. r = Inl (Exc e)")
    case True
    then obtain e where r: "r = Inl (Exc e)" by blast
    obtain r' evs' where h: "h e = (r', evs')" by (cases "h e")
    from assms(2) [of e] h have "sysexit_ok (r', evs')" by simp
    with Pair r h show ?thesis
      by (auto simp: sysexit_ok_def try_except_def split: sum.splits exn.splits)
  next
    case False
    with Pair assms(1) show ?thesis
      by (auto simp: sysexit_ok_def try_except_def split: sum.splits exn.splits)
  qed
qed

lemma ok_if: "(c \<Longrightarrow> sysexit_ok a) \<Longrightarrow> (\<not> c \<Longrightarrow> sysexit_ok b) \<Longrightarrow> sysexit_ok (if c then a else b)"
  by simp

lemmas ok_intros = ok_ret ok_raise ok_lift ok_attempt ok_emit ok_print ok_bind ok_seq ok_try ok_if

lemma exits1_bind:
  assumes "exits1 m" and "\<And>x. exits1 (f x)"
  shows "exits1 (bind m f)"
proof (cases m)
  case (Pair r evs)
  show ?thesis
  proof (cases r)
    case (Inl e)
    with Pair assms(1) show ?thesis by (simp add: exits1_def bind_def)
  next
    case (Inr v)
    obtain r' evs' where f: "f v = (r', evs')" by (cases "f v")
    from assms(2) [of v] f have "exits1 (r', evs')" by simp
    with Pair Inr f show ?thesis
      by (auto simp: exits1_def bind_def split: sum.splits)
  qed
qed

lemma exits1_seq: "exits1 m \<Longrightarrow> exits1 k \<Longrightarrow> exits1 (seq m k)"
  by (simp add: seq_def exits1_bind)

lemma exits1_ret: "exits1 (ret x)"
  by (simp add: exits1_def ret_def)
lemma exits1_print: "exits1 (print s)"
  by (simp add: exits1_def print_def emit_def)

lemma exits1_try:
  assumes "sysexit_ok m"
    and "\<And>e. fst (h e) = Inl (SystemExit 1) \<and> list_ex is_error_print (snd (h e))"
  shows "exits1 (try_except m h)"
proof (cases m)
  case (Pair r evs)
  show ?thesis
  proof (cases "\<exists>e. r = Inl (Exc e)")
    case True
    then obtain e where r: "r = Inl (Exc e)" by blast
    obtain r' evs' where h: "h e = (r', evs')" by (cases "h e")
    with assms(2) [of e] have "r' = Inl (SystemExit 1)" "list_ex is_error_print evs'" by simp_all
    with Pair r h show ?thesis by (simp add: exits1_def try_except_def)
  next
    case False
    with Pair assms(1) show ?thesis
      by (auto simp: exits1_def sysexit_ok_def try_except_def split: sum.splits exn.splits)
  qed
qed

lemmas run_defs = seq_def bind_def print_def emit_def sys_exit_def ret_def raise_def

lemma try_exit_Inr_iff:
  "try_except m (\<lambda>e. seq (print s) (sys_exit n)) = (Inr v, evs) \<longleftrightarrow> m = (Inr v, evs)"
  by (auto simp: try_except_def seq_def bind_def print_def emit_def sys_exit_def
        split: prod.splits sum.splits exn.splits)

lemma exits1_check_model_exists: "exits1 (check_model_exists W)"
  by (simp add: check_model_exists_def exits1_def seq_def bind_def print_def emit_def sys_exit_def ret_def)

lemma ok_build_model: "sysexit_ok (build_model W sd)"
  by (cases sd) (auto intro!: ok_intros)

lemma ok_check_model_exists: "sysexit_ok (check_model_exists W)"
  by (rule exits1_sysexit_ok) (rule exits1_check_model_exists)

lemma exits1_load_model: "exits1 (load_model W)"
  unfolding load_model_def
proof (rule exits1_try)
  show "sysexit_ok (bind (check_model_exists W) (\<lambda>_.
        seq (emit (LoadModel (MODEL_PATH W)))
       (bind (lift (torch_load W (MODEL_PATH W))) (\<lambda>state_dict.
        bind (build_model W state_dict) (\<lambda>model.
        seq (attempt (model_to W model (if cuda_is_available W then ''cuda:0'' else ''cpu'')))
       (seq (print ''RMBG-V1 model loaded successfully from local file on {device}'')
            (ret model)))))))"
    by (intro ok_intros ok_check_model_exists ok_build_model)
qed (simp add: run_defs)

lemma ok_load_model: "sysexit_ok (load_model W)"
  by (rule exits1_sysexit_ok) (rule exits1_load_model)

lemma exits1_create_pipeline: "exits1 (create_pipeline W)"
  unfolding create_pipeline_def
  by (rule exits1_try, intro ok_intros ok_check_model_exists ok_load_model) (simp add: run_defs)

lemma ok_create_pipeline: "sysexit_ok (create_pipeline W)"
  by (rule exits1_sysexit_ok) (rule exits1_create_pipeline)

lemma ok_image_convert: "sysexit_ok (image_convert W img m)"
  unfolding image_convert_def by (intro ok_intros)
lemma ok_image_resize: "sysexit_ok (image_resize W img sz)"
  unfolding image_resize_def by (intro ok_intros)
lemma ok_image_paste: "sysexit_ok (image_paste W d s m)"
  unfolding image_paste_def by (intro ok_intros)
lemma ok_image_band: "sysexit_ok (image_band W d n)"
  unfolding image_band_def by (intro ok_intros)
lemma ok_image_putalpha: "sysexit_ok (image_putalpha W d n)"
  unfolding image_putalpha_def by (intro ok_intros)
lemma ok_image_save: "sysexit_ok (image_save W pic p f)"
  unfolding image_save_def by (intro ok_intros)

lemmas ok_pil = ok_image_convert ok_image_resize ok_image_paste ok_image_band ok_image_putalpha
  ok_image_save

lemma ok_preprocess_image: "sysexit_ok (preprocess_image W p)"
  unfolding preprocess_image_def by (intro ok_intros ok_pil)

lemma ok_inference_body: "sysexit_ok (inference_body W N ip op t ee ca)"
  unfolding inference_body_def
  by (intro ok_intros ok_pil ok_preprocess_image ok_create_pipeline)

lemma exits1_inference: "exits1 (inference W N ip op t ee ca)"
  unfolding inference_def
  by (rule exits1_try, rule ok_inference_body) (simp add: run_defs)

lemma inference_Inr:
  "inference W N ip op t ee ca = (Inr m, evs) \<Longrightarrow> WriteFile op None (Gray m) \<in> set evs"
  by (auto simp: inference_def inference_body_def try_exit_Inr_iff image_save_def inv)

lemma exits1_v1_main: "exits1 (v1_main W N a)"
  unfolding v1_main_def by (intro exits1_bind exits1_inference exits1_ret)

section \<open>Exit status of the V2 script and of the test scripts\<close>

lemma no_exit_sysexit_ok: "no_exit m \<Longrightarrow> sysexit_ok m"
  by (cases m) (auto simp: no_exit_def sysexit_ok_def split: sum.splits exn.splits)

lemma ne_ret: "no_exit (ret x)"
  by (simp add: no_exit_def ret_def)
lemma ne_raise: "no_exit (raise e)"
  by (simp add: no_exit_def raise_def)
lemma ne_lift: "no_exit (lift r)"
  by (simp add: no_exit_def lift_def raise_def ret_def split: sum.splits)
lemma ne_attempt: "no_exit (attempt r)"
  by (simp add: no_exit_def attempt_def raise_def ret_def split: option.splits)
lemma ne_emit: "no_exit (emit ev)"
  by (simp add: no_exit_def emit_def)
lemma ne_print: "no_exit (print s)"
  by (simp add: print_def ne_emit)

lemma ne_bind:
  assumes "no_exit m" and "\<And>x. no_exit (f x)"
  shows "no_exit (bind m f)"
proof (cases m)
  case (Pair r evs)
  show ?thesis
  proof (cases r)
    case (Inl e)
    with Pair assms(1) show ?thesis by (simp add: no_exit_def bind_def)
  next
    case (Inr v)
    obtain r' evs' where f: "f v = (r', evs')" by (cases "f v")
    from assms(2) [of v] f have "no_exit (r', evs')" by simp
    with Pair Inr f show ?thesis by (simp add: no_exit_def bind_def)
  qed
qed

lemma ne_seq: "no_exit m \<Longrightarrow> no_exit k \<Longrightarrow> no_exit (seq m k)"
  by (simp add: seq_def ne_bind)

lemma ne_try:
  assumes "no_exit m" and "\<And>e. no_exit (h e)"
  shows "no_exit (try_except m h)"
proof (cases m)
  case (Pair r evs)
  show ?thesis
  proof (cases "\<exists>e. r = Inl (Exc e)")
    case True
    then obtain e where r: "r = Inl (Exc e)" by blast
    obtain r' evs' where h: "h e = (r', evs')" by (cases "h e")
    from assms(2) [of e] h have "no_exit (r', evs')" by simp
    with Pair r h show ?thesis by (simp add: no_exit_def try_except_def)
  next
    case False
    with Pair assms(1) show ?thesis
      by (auto simp: no_exit_def try_except_def split: sum.splits exn.splits)
  qed
qed

lemma ne_if: "(c \<Longrightarrow> no_exit a) \<Longrightarrow> (\<not> c \<Longrightarrow> no_exit b) \<Longrightarrow> no_exit (if c then a else b)"
  by simp

lemmas ne_intros = ne_ret ne_raise ne_lift ne_attempt ne_emit ne_print ne_bind ne_seq ne_try ne_if

lemma ne_image_convert: "no_exit (image_convert W img m)"
  unfolding image_convert_def by (intro ne_intros)
lemma ne_image_resize: "no_exit (image_resize W img sz)"
  unfolding image_resize_def by (intro ne_intros)
lemma ne_image_paste: "no_exit (image_paste W d s m)"
  unfolding image_paste_def by (intro ne_intros)
lemma ne_image_band: "no_exit (image_band W d n)"
  unfolding image_band_def by (intro ne_intros)
lemma ne_image_save: "no_exit (image_save W pic p f)"
  unfolding image_save_def by (intro ne_intros)

lemmas ne_pil = ne_image_convert ne_image_resize ne_image_paste ne_image_band ne_image_save

lemma ne_RMBG2_init: "no_exit (RMBG2_init W mp)"
  unfolding RMBG2_init_def Let_def by (intro ne_intros)

lemma ne_download_image: "no_exit (download_image W p)"
  unfolding download_image_def by (intro ne_intros)

lemma ne_load_input: "no_exit (load_input W a)"
  unfolding load_input_def by (cases a) (auto intro!: ne_intros ne_download_image)

lemma ne_flatten_alpha: "no_exit (flatten_alpha W img)"
  unfolding flatten_alpha_def by (intro ne_intros ne_pil)

lemma ne_fromarray: "no_exit (fromarray W t)"
  by (auto simp: fromarray_def intro!: ne_intros split: tensor.splits list.splits)

lemma ne_RMBG2_inference: "no_exit (RMBG2_inference W self t)"
  unfolding RMBG2_inference_def
  by (intro ne_intros) (auto intro!: ne_intros split: list.splits)

lemma ne_RMBG2_predict: "no_exit (RMBG2_predict W self img)"
  unfolding RMBG2_predict_def RMBG2_preprocess_def RMBG2_postprocess_def
  by (intro ne_intros ne_pil ne_fromarray ne_RMBG2_inference)

lemma ne_save_outputs: "no_exit (save_outputs W output msk op)"
  unfolding save_outputs_def
  by (auto intro!: ne_intros ne_pil split: option.splits)

lemma ne_process_image: "no_exit (process_image W a op mp)"
  unfolding process_image_def
  by (intro ne_intros ne_pil ne_RMBG2_init ne_load_input ne_flatten_alpha ne_RMBG2_predict ne_save_outputs)

lemma exits1_v2_main: "exits1 (v2_main W a)"
  unfolding v2_main_def
  by (rule exits1_try, intro ok_intros no_exit_sysexit_ok ne_process_image) (simp add: run_defs)

lemma process_image_Inr:
  "process_image W a (Some p) mp = (Inr (output, msk), evs) \<Longrightarrow> p \<noteq> [] \<Longrightarrow>
   WriteFile p (Some ''PNG'') (Img output) \<in> set evs"
  by (auto simp: process_image_def save_outputs_def image_save_def inv)

lemma default_output_nonempty: "default_output a \<noteq> []"
  by (auto simp: default_output_def split: option.splits)

lemma v2_main_Inr:
  "v2_main W a = (Inr u, evs) \<Longrightarrow>
   \<exists>output. WriteFile (default_output a) (Some ''PNG'') (Img output) \<in> set evs"
  using default_output_nonempty [of a]
  by (auto simp: v2_main_def try_exit_Inr_iff inv dest!: process_image_Inr)

lemma exits1_remove_background: "exits1 (remove_background W N ip op t ee ca)"
  unfolding remove_background_def
  by (rule exits1_try,
      intro ok_intros ok_pil ok_check_model_exists exits1_sysexit_ok exits1_inference)
     (simp add: run_defs)

lemma remove_background_Inr:
  "remove_background W N ip op t ee ca = (Inr u, evs) \<Longrightarrow>
   \<exists>img. WriteFile op None (Img img) \<in> set evs"
  by (auto simp: remove_background_def try_exit_Inr_iff image_save_def inv)

lemma exits1_test_rmbg_script: "exits1 (test_rmbg_script W N a)"
  unfolding test_rmbg_script_def
  by (intro exits1_seq exits1_print exits1_remove_background)

lemma test_rmbg_script_Inr:
  "test_rmbg_script W N a = (Inr u, evs) \<Longrightarrow>
   \<exists>img. WriteFile (test_output a) None (Img img) \<in> set evs"
  by (auto simp: test_rmbg_script_def inv dest!: remove_background_Inr)

lemma import_process_image_fails:
  "import_from W ''rmbg_inference'' rmbg_inference_names ''process_image''
   = (Inl (Exc (case import_module W ''rmbg_inference'' of
                  Some e \<Rightarrow> e | None \<Rightarrow> ImportError ''cannot import name'')), [])"
  by (simp add: import_from_def rmbg_inference_names_def attempt_def run_defs split: option.splits)

lemma compare_fails:
  "compare_with_original W N
   = (Inl (Exc (case import_module W ''rmbg_inference'' of
                  Some e \<Rightarrow> e | None \<Rightarrow> ImportError ''cannot import name'')), [])"
  by (simp add: compare_with_original_def import_process_image_fails bind_def)

lemma ne_create_test_image: "no_exit (create_test_image W)"
  unfolding create_test_image_def Let_def by (intro ne_intros ne_pil)

lemma ne_test_rmbg2_onnx: "no_exit (test_rmbg2_onnx W)"
  unfolding test_rmbg2_onnx_def by (intro ne_intros ne_create_test_image ne_process_image)

lemma test_rmbg2_script_fails:
  "\<exists>e evs. test_rmbg2_script W N = (Inl (Exc e), evs)"
proof (cases "test_rmbg2_onnx W")
  case (Pair r evs)
  show ?thesis
  proof (cases r)
    case (Inl x)
    with Pair ne_test_rmbg2_onnx [of W] obtain e where "x = Exc e"
      by (cases x) (auto simp: no_exit_def)
    with Pair Inl show ?thesis by (simp add: test_rmbg2_script_def bind_def)
  next
    case (Inr v)
    with Pair show ?thesis
      by (simp add: test_rmbg2_script_def compare_fails run_defs)
  qed
qed

section \<open>What a successful run needs\<close>

lemma try_exit2_Inr_iff:
  "try_except m (\<lambda>e. seq (print s) (seq (emit ev) (sys_exit n))) = (Inr v, evs) \<longleftrightarrow> m = (Inr v, evs)"
  by (auto simp: try_except_def seq_def bind_def print_def emit_def sys_exit_def
        split: prod.splits sum.splits exn.splits)

lemma check_model_exists_Inr:
  "check_model_exists W = (Inr b, evs) \<Longrightarrow> path_exists W (MODEL_PATH W)"
  by (auto simp: check_model_exists_def run_defs split: if_splits)

lemma load_model_Inr:
  "load_model W = (Inr model, evs) \<Longrightarrow> \<exists>sd. torch_load W (MODEL_PATH W) = Inr sd"
  by (auto simp: load_model_def try_exit2_Inr_iff inv)

lemma create_pipeline_Inr:
  "create_pipeline W = (Inr pipe, evs) \<Longrightarrow>
   path_exists W (MODEL_PATH W) \<and> (\<exists>sd. torch_load W (MODEL_PATH W) = Inr sd)"
  by (auto simp: create_pipeline_def try_exit_Inr_iff bind_Inr_iff
        dest: check_model_exists_Inr load_model_Inr)

lemma inference_body_Inr:
  "inference_body W N ip op t ee ca = (Inr m, evs) \<Longrightarrow>
   path_exists W (MODEL_PATH W) \<and> (\<exists>sd. torch_load W (MODEL_PATH W) = Inr sd) \<and>
   (\<exists>pipe img raw. call_pipe W pipe img = Inr raw) \<and> WriteFile op None (Gray m) \<in> set evs"
  unfolding inference_body_def
  apply (simp add: inv image_save_def)
  apply (elim exE conjE)
  apply (drule create_pipeline_Inr)
  apply auto
  done

lemma v1_main_Inr:
  assumes "v1_main W N a = (Inr u, evs)"
  shows "path_exists W (MODEL_PATH W) \<and> (\<exists>sd. torch_load W (MODEL_PATH W) = Inr sd) \<and>
   (\<exists>pipe img raw. call_pipe W pipe img = Inr raw) \<and>
   (\<exists>m evs'. inference_body W N (arg_input_image a) (arg_output_path a)
       (threshold_value (arg_threshold a)) (flag_value (arg_edge_enhancement a))
       (flag_value (arg_color_aware a)) = (Inr m, evs')) \<and>
   (\<exists>m. WriteFile (arg_output_path a) None (Gray m) \<in> set evs)"
proof -
  from assms obtain m where
    "inference_body W N (arg_input_image a) (arg_output_path a)
       (threshold_value (arg_threshold a)) (flag_value (arg_edge_enhancement a))
       (flag_value (arg_color_aware a)) = (Inr m, evs)"
    by (auto simp: v1_main_def inference_def try_exit_Inr_iff inv)
  from this inference_body_Inr [OF this] show ?thesis by blast
qed

lemma RMBG2_init_Inr:
  "RMBG2_init W mp = (Inr model, evs) \<Longrightarrow> \<exists>path s. inference_session W path = Inr s"
  by (auto simp: RMBG2_init_def Let_def inv)

lemma RMBG2_predict_Inr:
  "RMBG2_predict W self img = (Inr msk, evs) \<Longrightarrow> \<exists>s t outs. ort_run W s t = Inr outs"
  by (auto simp: RMBG2_predict_def RMBG2_inference_def inv)

lemma process_image_Inr_world:
  "process_image W a op mp = (Inr r, evs) \<Longrightarrow>
   (\<exists>path s. inference_session W path = Inr s) \<and> (\<exists>s t outs. ort_run W s t = Inr outs)"
  unfolding process_image_def
  apply (simp add: inv)
  apply (elim exE conjE)
  apply (drule RMBG2_init_Inr)
  apply (drule RMBG2_predict_Inr)
  apply blast
  done

lemma v2_main_Inr_world:
  assumes "v2_main W a = (Inr u, evs)"
  shows "(\<exists>path s. inference_session W path = Inr s) \<and> (\<exists>s t outs. ort_run W s t = Inr outs) \<and>
   (\<exists>r evs'. process_image W (PathArg (arg_input a)) (Some (default_output a)) (arg_model a) = (Inr r, evs'))"
proof -
  from assms obtain r evs' where
    p: "process_image W (PathArg (arg_input a)) (Some (default_output a)) (arg_model a) = (Inr r, evs')"
    by (auto simp: v2_main_def try_exit_Inr_iff inv)
  from process_image_Inr_world [OF p] p show ?thesis by blast
qed

lemma run_script_exits1:
  assumes "exits1 m"
  shows "(fst (run_script m) = 0 \<and> (\<exists>v. m = (Inr v, snd (run_script m)))) \<or>
         (fst (run_script m) = 1 \<and> list_ex is_error_print (snd (run_script m)))"
proof (cases m)
  case (Pair r evs)
  with assms show ?thesis
    by (cases r) (auto simp: exits1_def run_script_def)
qed

text \<open>
  Claim C3. Each script ends with status 0 or 1; with status 0 only after it has written
  its output, and with status 1 only after an error message was printed. A missing model
  file, a model that fails to load, a forward pass that raises and any exception or exit
  raised inside the processing function all end the V1 and the V2 script with status 1.
  The script \<^verbatim>\<open>test_rmbg.py\<close> behaves likewise, and \<^verbatim>\<open>test_rmbg2.py\<close> never ends
  with status 0: it always ends with status 1 and a traceback.
\<close>

theorem failures_exit_with_status_1:
  "(let r = run_script (v1_main W N a1) in
      (fst r = 0 \<and> (\<exists>m. WriteFile (arg_output_path a1) None (Gray m) \<in> set (snd r))) \<or>
      (fst r = 1 \<and> list_ex is_error_print (snd r))) \<and>
   (\<not> path_exists W (MODEL_PATH W) \<longrightarrow> fst (run_script (v1_main W N a1)) = 1) \<and>
   ((\<exists>e. torch_load W (MODEL_PATH W) = Inl e) \<longrightarrow> fst (run_script (v1_main W N a1)) = 1) \<and>
   ((\<forall>pipe img. \<exists>e. call_pipe W pipe img = Inl e) \<longrightarrow> fst (run_script (v1_main W N a1)) = 1) \<and>
   ((\<exists>x evs. inference_body W N (arg_input_image a1) (arg_output_path a1)
        (threshold_value (arg_threshold a1)) (flag_value (arg_edge_enhancement a1))
        (flag_value (arg_color_aware a1)) = (Inl x, evs))
      \<longrightarrow> fst (run_script (v1_main W N a1)) = 1) \<and>
   (let r = run_script (v2_main W a2) in
      (fst r = 0 \<and> (\<exists>output. WriteFile (default_output a2) (Some ''PNG'') (Img output) \<in> set (snd r))) \<or>
      (fst r = 1 \<and> list_ex is_error_print (snd r))) \<and>
   ((\<forall>path. \<exists>e. inference_session W path = Inl e) \<longrightarrow> fst (run_script (v2_main W a2)) = 1) \<and>
   ((\<forall>s t. \<exists>e. ort_run W s t = Inl e) \<longrightarrow> fst (run_script (v2_main W a2)) = 1) \<and>
   ((\<exists>x evs. process_image W (PathArg (arg_input a2)) (Some (default_output a2)) (arg_model a2)
        = (Inl x, evs))
      \<longrightarrow> fst (run_script (v2_main W a2)) = 1) \<and>
   (let r = run_script (test_rmbg_script W N a3) in
      (fst r = 0 \<and> (\<exists>img. WriteFile (test_output a3) None (Img img) \<in> set (snd r))) \<or>
      (fst r = 1 \<and> list_ex is_error_print (snd r))) \<and>
   (let r = run_script (test_rmbg2_script W N) in fst r = 1 \<and> Traceback \<in> set (snd r))"
proof -
  let ?r1 = "run_script (v1_main W N a1)"
  let ?r2 = "run_script (v2_main W a2)"
  let ?r3 = "run_script (test_rmbg_script W N a3)"
  have c1: "(fst ?r1 = 0 \<and> (\<exists>v. v1_main W N a1 = (Inr v, snd ?r1))) \<or>
            (fst ?r1 = 1 \<and> list_ex is_error_print (snd ?r1))"
    by (rule run_script_exits1) (rule exits1_v1_main)
  have c2: "(fst ?r2 = 0 \<and> (\<exists>v. v2_main W a2 = (Inr v, snd ?r2))) \<or>
            (fst ?r2 = 1 \<and> list_ex is_error_print (snd ?r2))"
    by (rule run_script_exits1) (rule exits1_v2_main)
  have c3: "(fst ?r3 = 0 \<and> (\<exists>v. test_rmbg_script W N a3 = (Inr v, snd ?r3))) \<or>
            (fst ?r3 = 1 \<and> list_ex is_error_print (snd ?r3))"
    by (rule run_script_exits1) (rule exits1_test_rmbg_script)
  have p1: "(fst ?r1 = 0 \<and> (\<exists>m. WriteFile (arg_output_path a1) None (Gray m) \<in> set (snd ?r1))) \<or>
      (fst ?r1 = 1 \<and> list_ex is_error_print (snd ?r1))"
    using c1 by (auto dest: v1_main_Inr)
  have p2: "\<not> path_exists W (MODEL_PATH W) \<longrightarrow> fst ?r1 = 1"
    using c1 by (auto dest: v1_main_Inr)
  have p3: "(\<exists>e. torch_load W (MODEL_PATH W) = Inl e) \<longrightarrow> fst ?r1 = 1"
    using c1 by (auto dest!: v1_main_Inr)
  have p4: "(\<forall>pipe img. \<exists>e. call_pipe W pipe img = Inl e) \<longrightarrow> fst ?r1 = 1"
  proof
    assume a: "\<forall>pipe img. \<exists>e. call_pipe W pipe img = Inl e"
    show "fst ?r1 = 1"
    proof (rule ccontr)
      assume "fst ?r1 \<noteq> 1"
      with c1 obtain v where "v1_main W N a1 = (Inr v, snd ?r1)" by blast
      from v1_main_Inr [OF this] obtain pipe img raw where "call_pipe W pipe img = Inr raw" by blast
      with a show False by (metis sum.distinct(1))
    qed
  qed
  have p5: "(\<exists>x evs. inference_body W N (arg_input_image a1) (arg_output_path a1)
        (threshold_value (arg_threshold a1)) (flag_value (arg_edge_enhancement a1))
        (flag_value (arg_color_aware a1)) = (Inl x, evs)) \<longrightarrow> fst ?r1 = 1"
    using c1 by (auto dest!: v1_main_Inr)
  have p6: "(fst ?r2 = 0 \<and> (\<exists>output. WriteFile (default_output a2) (Some ''PNG'') (Img output) \<in> set (snd ?r2))) \<or>
      (fst ?r2 = 1 \<and> list_ex is_error_print (snd ?r2))"
    using c2 by (auto dest: v2_main_Inr)
  have p7: "(\<forall>path. \<exists>e. inference_session W path = Inl e) \<longrightarrow> fst ?r2 = 1"
  proof
    assume a: "\<forall>path. \<exists>e. inference_session W path = Inl e"
    show "fst ?r2 = 1"
    proof (rule ccontr)
      assume "fst ?r2 \<noteq> 1"
      with c2 obtain v where "v2_main W a2 = (Inr v, snd ?r2)" by blast
      from v2_main_Inr_world [OF this] obtain path s where "inference_session W path = Inr s" by blast
      with a show False by (metis sum.distinct(1))
    qed
  qed
  have p8: "(\<forall>s t. \<exists>e. ort_run W s t = Inl e) \<longrightarrow> fst ?r2 = 1"
  proof
    assume a: "\<forall>s t. \<exists>e. ort_run W s t = Inl e"
    show "fst ?r2 = 1"
    proof (rule ccontr)
      assume "fst ?r2 \<noteq> 1"
      with c2 obtain v where "v2_main W a2 = (Inr v, snd ?r2)" by blast
      from v2_main_Inr_world [OF this] obtain s t outs where "ort_run W s t = Inr outs" by blast
      with a show False by (metis sum.distinct(1))
    qed
  qed
  have p9: "(\<exists>x evs. process_image W (PathArg (arg_input a2)) (Some (default_output a2)) (arg_model a2)
        = (Inl x, evs)) \<longrightarrow> fst ?r2 = 1"
    using c2 by (auto dest!: v2_main_Inr_world)
  have p10: "(fst ?r3 = 0 \<and> (\<exists>img. WriteFile (test_output a3) None (Img img) \<in> set (snd ?r3))) \<or>
      (fst ?r3 = 1 \<and> list_ex is_error_print (snd ?r3))"
    using c3 by (auto dest: test_rmbg_script_Inr)
  have p11: "fst (run_script (test_rmbg2_script W N)) = 1 \<and>
             Traceback \<in> set (snd (run_script (test_rmbg2_script W N)))"
    using test_rmbg2_script_fails [of W N] by (auto simp: run_script_def)
  show ?thesis
    unfolding Let_def using p1 p2 p3 p4 p5 p6 p7 p8 p9 p10 p11 by blast
qed

theorem failures_exit_with_status_1_witness:
  "fst (run_script (v1_main broken_world example_lib example_v1_args)) = 1 \<and>
   fst (run_script (v2_main broken_world example_v2_args)) = 1 \<and>
   fst (run_script (test_rmbg_script broken_world example_lib example_test_args)) = 1 \<and>
   fst (run_script (test_rmbg2_script broken_world example_lib)) = 1"
proof -
  have a: "\<not> path_exists broken_world (MODEL_PATH broken_world)"
    by (simp add: broken_world_def)
  have b: "\<forall>path. \<exists>e. inference_session broken_world path = Inl e"
    by (simp add: broken_world_def)
  have c: "\<not> fst (run_script (test_rmbg_script broken_world example_lib example_test_args)) = 0"
    by (simp add: test_rmbg_script_def remove_background_def check_model_exists_def
          broken_world_def run_script_def try_except_def run_defs)
  from failures_exit_with_status_1 [of broken_world example_lib example_v1_args example_v2_args
      example_test_args] a b c
  show ?thesis unfolding Let_def by blast
qed

section \<open>Runs in the example environments\<close>

lemmas v1_defs = v1_main_def inference_def inference_body_def create_pipeline_def load_model_def
  check_model_exists_def preprocess_image_def threshold_and_enhance_def image_save_def
  image_convert_def MODEL_PATH_def threshold_value_def flag_value_def lower_def lower_char_def
  lift_def attempt_def try_except_def run_defs

lemmas v2_defs = v2_main_def process_image_def RMBG2_init_def load_input_def flatten_alpha_def
  RMBG2_predict_def RMBG2_preprocess_def RMBG2_inference_def RMBG2_postprocess_def fromarray_def
  save_outputs_def image_save_def image_convert_def image_resize_def image_paste_def image_new_def
  download_image_def MODEL_PATH_V2_def INPUT_SIZE_def default_output_def mask_path_of_def
  Let_def lift_def attempt_def try_except_def run_defs

lemma v1_flags_off_run:
  "v1_main ideal_world example_lib flags_off_args =
    (Inr (),
  [Print ''Found local model at {MODEL_PATH}'',
   Print ''Found local model at {MODEL_PATH}'',
   LoadModel ''/app/models/model.pth'',
   Print ''Detected OrderedDict model format - creating model and loading state dict'',
   Print ''RMBG-V1 model loaded successfully from local file on {device}'',
   OpenFile ''in.jpg'',
   Print ''Running RMBG-V1 inference on {image_path}...'', RunModel,
   WriteFile ''mask.png'' None (Gray [[255, 0], [0, 255]]),
   Print ''Mask saved to {output_path}'',
   Print ''Inference completed in {elapsed:.2f} seconds''])"
  by (simp add: v1_defs ideal_world_def flags_off_args_def example_image_def is_url_def startswith_def
      apply_threshold_def threshold_pixel_def)

lemma v2_run:
  "process_image ideal_world (PathArg ''in.jpg'') (Some ''out/x.png'') None =
 (Inr (\<lparr>img_mode = ModeRGBA, img_size = (3, 2), img_data = [1, 2, 3]\<rparr>,
       \<lparr>img_mode = ModeL, img_size = (3, 2), img_data = [0]\<rparr>),
  [Print ''Loading ONNX model from {self.model_path}'',
   Print ''Available providers: {available_providers}'',
   Print ''Using providers: {self.providers}'',
   LoadModel ''/app/models/model_q4f16.onnx'',
   Print ''Model loaded successfully. Input shape: {self.input_shape}'',
   OpenFile ''in.jpg'',
   Print ''Processing image of size {orig_width}x{orig_height}'', RunModel,
   Print ''Inference time: {inference_time:.3f} seconds'',
   WriteFile ''out/x.png'' (Some ''PNG'')
    (Img \<lparr>img_mode = ModeRGBA, img_size = (3, 2), img_data = [1, 2, 3]\<rparr>),
   Print ''Saved output to {output_path}'',
   WriteFile ''out/x_mask.png'' (Some ''PNG'')
    (Img \<lparr>img_mode = ModeL, img_size = (3, 2), img_data = [0]\<rparr>),
   Print ''Saved mask to {mask_path}''])"
  by (simp add: v2_defs ideal_world_def example_image_def is_url_def startswith_def
      splitext_def dirname_def rfind_def rstrip_def)

text \<open>
  Claim C1. The mask that \<open>RMBG2.predict\<close> returns has the size of the image it was
  given, although the model's input is always 1024 by 1024; the RGBA output and the mask
  that \<open>process_image\<close> returns have the size of the input image it loaded.
\<close>

theorem output_dimensions:
  "(\<forall>msk evs. RMBG2_predict W self img = (Inr msk, evs) \<longrightarrow> img_size msk = img_size img) \<and>
   (\<forall>t evs. RMBG2_preprocess W img = (Inr t, evs) \<longrightarrow>
      (\<exists>d. t = Tensor [1, 3, INPUT_SIZE, INPUT_SIZE] d)) \<and>
   (\<forall>output msk evs. process_image W a out mp = (Inr (output, msk), evs) \<longrightarrow>
      (\<exists>img0 e0. load_input W a = (Inr img0, e0) \<and>
         img_size output = img_size img0 \<and> img_size msk = img_size img0 \<and>
         img_mode output = ModeRGBA))"
proof (intro conjI allI impI)
  fix msk evs assume "RMBG2_predict W self img = (Inr msk, evs)"
  then show "img_size msk = img_size img" by (rule predict_size)
next
  fix t evs assume "RMBG2_preprocess W img = (Inr t, evs)"
  then show "\<exists>d. t = Tensor [1, 3, INPUT_SIZE, INPUT_SIZE] d"
    by (auto simp: RMBG2_preprocess_def inv)
next
  fix outp msk evs assume "process_image W a out mp = (Inr (outp, msk), evs)"
  then show "\<exists>img0 e0. load_input W a = (Inr img0, e0) \<and>
         img_size outp = img_size img0 \<and> img_size msk = img_size img0 \<and>
         img_mode outp = ModeRGBA"
    by (rule process_image_sizes)
qed

theorem output_dimensions_witness:
  "img_size example_image = (3, 2) \<and>
   (\<exists>output msk evs.
      process_image ideal_world (PathArg ''in.jpg'') (Some ''out/x.png'') None = (Inr (output, msk), evs) \<and>
      img_size output = (3, 2) \<and> img_size msk = (3, 2))"
proof -
  obtain outp msk evs where
    r: "process_image ideal_world (PathArg ''in.jpg'') (Some ''out/x.png'') None = (Inr (outp, msk), evs)"
    using v2_run by blast
  from output_dimensions [of ideal_world _ _ "PathArg ''in.jpg''" "Some ''out/x.png''" None] r
  obtain img0 e0 where l: "load_input ideal_world (PathArg ''in.jpg'') = (Inr img0, e0)"
    and s: "img_size outp = img_size img0" "img_size msk = img_size img0"
    by blast
  have "load_input ideal_world (PathArg ''in.jpg'') = (Inr example_image, [OpenFile ''in.jpg''])"
    by (simp add: load_input_def ideal_world_def is_url_def startswith_def lift_def run_defs)
  with l have "img0 = example_image" by simp
  with s r show ?thesis by (auto simp: example_image_def)
qed

text \<open>
  Claim C2. \<open>compare_with_original\<close> is meant to run both backends and compare them, but
  it imports \<open>process_image\<close> from \<^verbatim>\<open>rmbg_inference\<close>, which defines no such name (its
  entry point is \<open>inference\<close>): in every environment the function raises before the
  \<^verbatim>\<open>try\<close> block, having run no backend and printed no comparison.
\<close>

theorem compare_with_original_import_error:
  "compare_with_original W N
     = (Inl (Exc (case import_module W ''rmbg_inference'' of
                    Some e \<Rightarrow> e | None \<Rightarrow> ImportError ''cannot import name'')), []) \<and>
   ''process_image'' \<notin> set rmbg_inference_names \<and> ''inference'' \<in> set rmbg_inference_names"
  by (simp add: compare_fails) (simp add: rmbg_inference_names_def)

section \<open>Where the input image comes from\<close>












section \<open>The files that process_image writes\<close>





section \<open>Threshold and enhancement in the V1 script\<close>

lemma inference_result:
  assumes "inference W N ip op t ee ca = (Inr m, evs)"
  shows "\<exists>pipe img raw. call_pipe W pipe img = Inr raw \<and> threshold_and_enhance N raw t ee ca = Inr m"
  using assms
  by (auto simp: inference_def inference_body_def try_exit_Inr_iff inv)

text \<open>
  Claim C4, amended. The V1 script always applies the threshold to the model's mask
  (only its value is an argument) and then, optionally, the image filters: with both
  flags off the result is the thresholded mask; with \<open>edge_enhancement\<close> on, the
  normalised Sobel edge image is combined with the thresholded mask by element-wise
  maximum; with \<open>color_aware\<close> on as well, that is smoothed by a Gaussian filter with
  sigma 0.5 and binarised again (values above 127 become 255, the others 0). The mask
  that \<open>inference\<close> returns is this result for the mask of the pipeline.
\<close>

theorem threshold_always_then_optional_enhancement:
  "threshold_and_enhance N m t False False = Inr (apply_threshold m t) \<and>
   (\<forall>q d. edge_normalized N (apply_threshold m t) = Inr (q, d) \<longrightarrow>
      threshold_and_enhance N m t True False
        = Inr (zip2d max (apply_threshold m t) (map2d (astype_u8 N) q)) \<and>
      threshold_and_enhance N m t True True
        = Inr (map2d (\<lambda>p. if p > 127 then 255 else 0)
                 (gaussian_filter N (zip2d max (apply_threshold m t) (map2d (astype_u8 N) q)) (1 / 2)))) \<and>
   (\<forall>res evs. inference W N ip op t ee ca = (Inr res, evs) \<longrightarrow>
      (\<exists>pipe img raw. call_pipe W pipe img = Inr raw \<and>
         threshold_and_enhance N raw t ee ca = Inr res))"
proof (intro conjI allI impI)
  show "threshold_and_enhance N m t False False = Inr (apply_threshold m t)"
    by (simp add: threshold_and_enhance_def)
next
  fix q d assume "edge_normalized N (apply_threshold m t) = Inr (q, d)"
  then show "threshold_and_enhance N m t True False
        = Inr (zip2d max (apply_threshold m t) (map2d (astype_u8 N) q))"
    and "threshold_and_enhance N m t True True
        = Inr (map2d (\<lambda>p. if p > 127 then 255 else 0)
                 (gaussian_filter N (zip2d max (apply_threshold m t) (map2d (astype_u8 N) q)) (1 / 2)))"
    by (simp_all add: threshold_and_enhance_def enhance_mask_def edge_branch_def rebinarize_def)
next
  fix res evs assume "inference W N ip op t ee ca = (Inr res, evs)"
  then show "\<exists>pipe img raw. call_pipe W pipe img = Inr raw \<and>
         threshold_and_enhance N raw t ee ca = Inr res"
    by (rule inference_result)
qed

lemma example_edge:
  "edge_normalized example_lib (apply_threshold [[100, 50], [89, 90]] (35 / 100))
     = Inr ([[Quot 8 8, Quot 8 8], [Quot 8 8, Quot 8 8]], 8)"
  by code_simp

theorem threshold_always_then_optional_enhancement_witness:
  "threshold_and_enhance example_lib [[100, 50], [89, 90]] (35 / 100) False False
     = Inr [[255, 0], [0, 255]] \<and>
   threshold_and_enhance example_lib [[100, 50], [89, 90]] (35 / 100) True False
     = Inr [[255, 255], [255, 255]] \<and>
   threshold_and_enhance example_lib [[100, 50], [89, 90]] (35 / 100) True True
     = Inr [[255, 255], [255, 255]]"
proof -
  have t: "apply_threshold [[100, 50], [89, 90]] (35 / 100) = [[255, 0], [0, 255]]"
    by (simp add: apply_threshold_def threshold_pixel_def)
  from threshold_always_then_optional_enhancement
         [of example_lib "[[100, 50], [89, 90]]" "35 / 100"] example_edge
  have "threshold_and_enhance example_lib [[100, 50], [89, 90]] (35 / 100) False False
          = Inr (apply_threshold [[100, 50], [89, 90]] (35 / 100))"
    and "threshold_and_enhance example_lib [[100, 50], [89, 90]] (35 / 100) True False
        = Inr (zip2d max (apply_threshold [[100, 50], [89, 90]] (35 / 100))
                 (map2d (astype_u8 example_lib) [[Quot 8 8, Quot 8 8], [Quot 8 8, Quot 8 8]]))"
    and "threshold_and_enhance example_lib [[100, 50], [89, 90]] (35 / 100) True True
        = Inr (map2d (\<lambda>p. if p > 127 then 255 else 0)
                 (gaussian_filter example_lib
                    (zip2d max (apply_threshold [[100, 50], [89, 90]] (35 / 100))
                       (map2d (astype_u8 example_lib) [[Quot 8 8, Quot 8 8], [Quot 8 8, Quot 8 8]]))
                    (1 / 2)))"
    by blast+
  then show ?thesis
    unfolding t by (simp add: zip2d_def map2d_def astype_u8_def example_lib_def)
qed

text \<open>
  Claim C4 as stated fails: with both flags off, the mask of the pipeline
  \<open>[[100, 50], [89, 90]]\<close> is still thresholded before it is saved.
\<close>

theorem threshold_not_toggleable_counterexample:
  "call_pipe ideal_world (SegmentationPipeline (ConfiguredModel (OrderedDict [''encoder.weight'']))) example_image
     = Inr [[100, 50], [89, 90]] \<and>
   \<not> flag_value (arg_edge_enhancement flags_off_args) \<and>
   \<not> flag_value (arg_color_aware flags_off_args) \<and>
   WriteFile ''mask.png'' None (Gray [[255, 0], [0, 255]])
     \<in> set (snd (v1_main ideal_world example_lib flags_off_args)) \<and>
   WriteFile ''mask.png'' None (Gray [[100, 50], [89, 90]])
     \<notin> set (snd (v1_main ideal_world example_lib flags_off_args))"
  by (simp add: v1_flags_off_run)
     (simp add: ideal_world_def flags_off_args_def flag_value_def lower_def lower_char_def)

end
